theory Spec2Isabelle
  imports Main "HOL-Library.AList" "HOL-Library.List_Lexorder" "HOL-Library.Product_Lexorder"
begin

section \<open>Python strings\<close>

text \<open>
  A Python \<open>str\<close> is a sequence of Unicode code points, and \<open>health_fetcher.py\<close>
  slices, strips and compares its status strings by code point (the severity glyph is
  \<open>s.lstrip()[:1]\<close>). A string is therefore modelled as the list of its code points.
\<close>

type_synonym pystr = "nat list"

definition ascii :: "string \<Rightarrow> pystr" where
  "ascii s = map of_char s"

text \<open>\<open>str.isspace\<close> on one code point: the whitespace set of \<open>strip\<close>, \<open>lstrip\<close> and \<open>\s\<close>.\<close>

definition isspace :: "nat \<Rightarrow> bool" where
  "isspace c =
     ((9 \<le> c \<and> c \<le> 13) \<or> (28 \<le> c \<and> c \<le> 32) \<or> c = 0x85 \<or> c = 0xA0 \<or> c = 0x1680 \<or>
      (0x2000 \<le> c \<and> c \<le> 0x200A) \<or> c = 0x2028 \<or> c = 0x2029 \<or> c = 0x202F \<or>
      c = 0x205F \<or> c = 0x3000)"

definition lstrip :: "pystr \<Rightarrow> pystr" where
  "lstrip s = dropWhile isspace s"


definition rstrip :: "pystr \<Rightarrow> pystr" where
  "rstrip s = rev (dropWhile isspace (rev s))"

definition strip :: "pystr \<Rightarrow> pystr" where
  "strip s = rstrip (lstrip s)"

text \<open>
  \<open>str.lower\<close>, one code point at a time. Only two code points outside ASCII have a
  lowercase form that contains an ASCII character: U+0130 (to \<open>i\<close> followed by U+0307)
  and U+212A, the Kelvin sign (to \<open>k\<close>). Every other code point outside ASCII
  lowercases to code points outside ASCII; the program only ever searches a lowered
  string for ASCII needles or matches it against ASCII letters and digits, so those are
  left as they are.
\<close>

definition lower_cp :: "nat \<Rightarrow> pystr" where
  "lower_cp c =
     (if 65 \<le> c \<and> c \<le> 90 then [c + 32]
      else if c = 0x130 then [0x69, 0x307]
      else if c = 0x212A then [0x6B]
      else [c])"

definition lower :: "pystr \<Rightarrow> pystr" where
  "lower s = concat (map lower_cp s)"

text \<open>\<open>s.startswith(p)\<close> and \<open>sub in s\<close>\<close>

definition startswith :: "pystr \<Rightarrow> pystr \<Rightarrow> bool" where
  "startswith s p = (take (length p) s = p)"

fun isin :: "pystr \<Rightarrow> pystr \<Rightarrow> bool" where
  "isin sub [] = (sub = [])"
| "isin sub (c # s) = (startswith (c # s) sub \<or> isin sub s)"

text \<open>\<open>s.split(sep, 1)\<close> for a one-character \<open>sep\<close> that occurs in \<open>s\<close>, as a pair;
  and \<open>s.split(sep)\<close>.\<close>

definition split1 :: "nat \<Rightarrow> pystr \<Rightarrow> pystr \<times> pystr" where
  "split1 sep s = (takeWhile (\<lambda>c. c \<noteq> sep) s, drop 1 (dropWhile (\<lambda>c. c \<noteq> sep) s))"

fun split_on :: "nat \<Rightarrow> pystr \<Rightarrow> pystr list" where
  "split_on sep [] = [[]]"
| "split_on sep (c # s) =
     (if c = sep then [] # split_on sep s
      else (case split_on sep s of [] \<Rightarrow> [[c]] | y # ys \<Rightarrow> (c # y) # ys))"

text \<open>\<open>s.replace("Z", "+00:00")\<close>\<close>

definition replace_Z :: "pystr \<Rightarrow> pystr" where
  "replace_Z s = concat (map (\<lambda>c. if c = 90 then ascii ''+00:00'' else [c]) s)"

section \<open>Severity of a status string\<close>

text \<open>
  \<^verbatim>\<open>
  def _worse_status(a: str, b: str) -> str:
      # Order: red > yellow > green
      order = {"<red>": 3, "<yellow>": 2, "<green>": 1}
      ea = a.lstrip()[:1]
      eb = b.lstrip()[:1]
      return a if order.get(ea, 0) >= order.get(eb, 0) else b
  \<close>
  The three keys are the one-character strings U+1F534 (red circle), U+1F7E1 (yellow
  circle) and U+1F7E2 (green circle).
\<close>

definition RED :: pystr where "RED = [0x1F534]"
definition YELLOW :: pystr where "YELLOW = [0x1F7E1]"
definition GREEN :: pystr where "GREEN = [0x1F7E2]"

text \<open>\<open>order.get(e, 0)\<close>\<close>

definition order_get :: "pystr \<Rightarrow> nat" where
  "order_get e = (if e = RED then 3 else if e = YELLOW then 2 else if e = GREEN then 1 else 0)"

text \<open>\<open>s.lstrip()[:1]\<close>\<close>

definition glyph :: "pystr \<Rightarrow> pystr" where
  "glyph s = take 1 (lstrip s)"

definition severity :: "pystr \<Rightarrow> nat" where
  "severity s = order_get (glyph s)"

definition worse_status :: "pystr \<Rightarrow> pystr \<Rightarrow> pystr" where
  "worse_status a b = (if severity a \<ge> severity b then a else b)"

section \<open>String literals of the program\<close>

text \<open>
  The literals of \<open>health_fetcher.py\<close> that contain code points outside ASCII, written
  code point by code point (ASCII runs through \<open>ascii\<close>). Each is the literal of the
  source at the place named; the gloss gives its meaning.
\<close>

text \<open>Default row (lines 260, 261, 286): status "green circle, healthy"; diagnosis
  "state stable, standing by"; \<open>DIAG_GENERIC_PREFIX\<close> is the prefix "state stable" tested
  by \<open>startswith\<close> in \<open>apply\<close> (line 290).\<close>

definition STATUS_HEALTHY :: pystr where
  "STATUS_HEALTHY = [0x1F7E2] @ ascii '' '' @ [0x5065, 0x5EB7]"

definition DIAG_DEFAULT :: pystr where
  "DIAG_DEFAULT = [0x72B6, 0x6001, 0x7A33, 0x5B9A, 0xFF0C, 0x5C31, 0x7EEA, 0x4E2D, 0x3002]"

definition DIAG_GENERIC_PREFIX :: pystr where
  "DIAG_GENERIC_PREFIX = [0x72B6, 0x6001, 0x7A33, 0x5B9A]"

text \<open>Breadcrumb of an inactive incident (line 323): "most recent anomaly: [" ... "] " kind
  "(outside window / possibly recovered, needs verification)".\<close>

definition BREADCRUMB_HEAD :: pystr where
  "BREADCRUMB_HEAD = [0x6700, 0x8FD1, 0x4E00, 0x6B21, 0x5F02, 0x5E38] @ ascii '': [''"

definition BREADCRUMB_TAIL :: pystr where
  "BREADCRUMB_TAIL = [0xFF08, 0x7A97, 0x53E3, 0x5916] @ ascii ''/'' @ [0x53EF, 0x80FD, 0x5DF2, 0x6062, 0x590D, 0xFF0C, 0x9700, 0x9A8C, 0x8BC1, 0xFF09]"

text \<open>Cooldown (lines 355, 356, 492, 493): status "yellow circle, transient throttling".\<close>

definition STATUS_COOLDOWN :: pystr where
  "STATUS_COOLDOWN = [0x1F7E1] @ ascii '' '' @ [0x77AC, 0x65F6, 0x9650, 0x6D41]"

definition DIAG_SEG_COOLDOWN :: pystr where
  "DIAG_SEG_COOLDOWN = ascii ''Provider cooldown / '' @ [0x77AC, 0x65F6, 0x9650, 0x6D41, 0xFF08, 0x7A97, 0x53E3, 0x5185, 0x66FE, 0x51FA, 0x73B0, 0xFF09, 0x3002]"

definition DIAG_COOLDOWN :: pystr where
  "DIAG_COOLDOWN = ascii ''Cooldown / '' @ [0x77AC, 0x65F6, 0x9650, 0x6D41, 0xFF08, 0x7A97, 0x53E3, 0x5185, 0x66FE, 0x51FA, 0x73B0, 0xFF09, 0x3002]"

text \<open>Rate limit (lines 364-373, 504-513): yellow "429 throttled" with the diagnoses
  "(short-term/RPM likely)" and "(may be RPM/concurrency)"; red "429 quota/capacity limit"
  with the diagnosis "(must wait for reset)".\<close>

definition STATUS_429 :: pystr where
  "STATUS_429 = [0x1F7E1] @ ascii '' 429 '' @ [0x9650, 0x6D41]"

definition DIAG_429_SHORT :: pystr where
  "DIAG_429_SHORT = ascii ''429 '' @ [0x9650, 0x6D41, 0xFF08, 0x77ED, 0x671F] @ ascii ''/RPM '' @ [0x53EF, 0x80FD, 0xFF09, 0x3002]"

definition STATUS_429_QUOTA :: pystr where
  "STATUS_429_QUOTA = [0x1F534] @ ascii '' 429 '' @ [0x914D, 0x989D] @ ascii ''/'' @ [0x5BB9, 0x91CF, 0x9650, 0x5236]"

definition DIAG_429_QUOTA :: pystr where
  "DIAG_429_QUOTA = ascii ''429 '' @ [0x914D, 0x989D] @ ascii ''/'' @ [0x5BB9, 0x91CF, 0x9650, 0x5236, 0xFF08, 0x9700, 0x7B49, 0x5F85, 0x91CD, 0x7F6E, 0xFF09, 0x3002]"

definition DIAG_429_DEFAULT :: pystr where
  "DIAG_429_DEFAULT = ascii ''429 '' @ [0x9650, 0x6D41, 0xFF08, 0x53EF, 0x80FD, 0x662F] @ ascii '' RPM/'' @ [0x5E76, 0x53D1, 0xFF09, 0x3002]"

text \<open>Recovery hint (lines 348, 472, 501): "expected to reset after " raw.\<close>

definition RECOVERY_HEAD :: pystr where
  "RECOVERY_HEAD = [0x9884, 0x8BA1] @ ascii '' ''"

definition RECOVERY_TAIL :: pystr where
  "RECOVERY_TAIL = ascii '' '' @ [0x540E, 0x91CD, 0x7F6E]"

text \<open>Timeout (lines 387, 388): yellow "connection timed out". Context limit (lines 397,
  398): yellow "Token/context limit".\<close>

definition STATUS_TIMEOUT :: pystr where
  "STATUS_TIMEOUT = [0x1F7E1] @ ascii '' '' @ [0x8FDE, 0x63A5, 0x8D85, 0x65F6]"

definition DIAG_TIMEOUT :: pystr where
  "DIAG_TIMEOUT = ascii ''timeout / ETIMEDOUT'' @ [0xFF08, 0x7A97, 0x53E3, 0x5185, 0x66FE, 0x51FA, 0x73B0, 0xFF09, 0x3002]"

definition STATUS_CONTEXT :: pystr where
  "STATUS_CONTEXT = [0x1F7E1] @ ascii '' Token/'' @ [0x4E0A, 0x4E0B, 0x6587, 0x4E0A, 0x9650]"

definition DIAG_CONTEXT :: pystr where
  "DIAG_CONTEXT = ascii ''Token/'' @ [0x4E0A, 0x4E0B, 0x6587, 0x4E0A, 0x9650, 0x89E6, 0x53D1, 0xFF08, 0x7A97, 0x53E3, 0x5185, 0x66FE, 0x51FA, 0x73B0, 0xFF09, 0x3002]"

text \<open>Missing credential (line 421): red "configuration missing"; diagnosis "API key not
  configured (provider authentication failed)". Provider cooldown (line 436). Unknown
  model (lines 453, 455): red "model invalid".\<close>

definition STATUS_NO_KEY :: pystr where
  "STATUS_NO_KEY = [0x1F534] @ ascii '' '' @ [0x914D, 0x7F6E, 0x7F3A, 0x5931]"

definition DIAG_NO_KEY :: pystr where
  "DIAG_NO_KEY = [0x672A, 0x914D, 0x7F6E] @ ascii '' API key'' @ [0xFF08] @ ascii ''provider '' @ [0x8BA4, 0x8BC1, 0x5931, 0x8D25, 0xFF09, 0x3002]"

definition DIAG_PROVIDER_COOLDOWN :: pystr where
  "DIAG_PROVIDER_COOLDOWN = ascii ''Provider cooldown'' @ [0xFF08, 0x8BE5] @ ascii '' provider '' @ [0x4E0B, 0x6240, 0x6709] @ ascii '' profile '' @ [0x4E0D, 0x53EF, 0x7528, 0xFF09, 0x3002]"

definition STATUS_BAD_MODEL :: pystr where
  "STATUS_BAD_MODEL = [0x1F534] @ ascii '' '' @ [0x6A21, 0x578B, 0x65E0, 0x6548]"

definition DIAG_BAD_MODEL :: pystr where
  "DIAG_BAD_MODEL = ascii ''Unknown model / not allowed''"

text \<open>Restart reasons (lines 620, 625, 630, 648): "user configuration change (SIGUSR1)",
  "system/service restart (SIGTERM)", "abnormal exit/crash", "Watchdog self-heal
  triggered"; \<open>CRASH_MARK\<close> is the two-character needle "abnormal" of line 638.\<close>

definition REASON_SIGUSR1 :: pystr where
  "REASON_SIGUSR1 = [0x7528, 0x6237, 0x914D, 0x7F6E, 0x53D8, 0x66F4] @ ascii '' (SIGUSR1)''"

definition REASON_SIGTERM :: pystr where
  "REASON_SIGTERM = [0x7CFB, 0x7EDF] @ ascii ''/'' @ [0x670D, 0x52A1, 0x91CD, 0x542F] @ ascii '' (SIGTERM)''"

definition REASON_CRASH :: pystr where
  "REASON_CRASH = [0x5F02, 0x5E38, 0x9000, 0x51FA] @ ascii ''/'' @ [0x5D29, 0x6E83]"

definition CRASH_MARK :: pystr where
  "CRASH_MARK = [0x5F02, 0x5E38]"

definition REASON_WATCHDOG :: pystr where
  "REASON_WATCHDOG = ascii ''Watchdog '' @ [0x81EA, 0x6108, 0x89E6, 0x53D1]"

section \<open>The interpreter's Unicode tables and library calls\<close>

text \<open>
  The program relies on parts of the Python runtime that are not in the repository and
  depend on the interpreter's version: which code points outside ASCII are alphanumeric
  (the class \<open>\w\<close> and the boundary \<open>\b\<close> of \<open>re\<close>), which are decimal digits and with
  what value (\<open>\d\<close> and \<open>int\<close>), \<open>datetime.fromisoformat\<close>, and the rendering of an
  instant in the report's time zone. They are parameters of the model:
  \<^item> \<open>isalnum_u c\<close>: \<open>str.isalnum\<close> of the code point \<open>c\<close>, consulted for \<open>c \<ge> 128\<close> only;
  \<^item> \<open>decimal_u c\<close>: the digit value of \<open>c\<close> when \<open>c\<close> is a Unicode decimal digit,
    consulted for \<open>c \<ge> 128\<close> only;
  \<^item> \<open>fromisoformat s\<close>: the instant \<open>datetime.fromisoformat(s)\<close> denotes, a naive result
    being read as UTC (as lines 611-612 do), or \<open>None\<close> when it raises;
  \<^item> \<open>fmt_local t\<close>: \<open>_fmt_local(t, tz)\<close>, the instant as \<open>%H:%M\<close> in the time zone \<open>tz\<close>
    (lines 124-127); \<open>astimezone\<close> raises \<open>OverflowError\<close> when the local time is not
    within the years 1 to 9999, and nothing in the program catches it;
  \<^item> \<open>max_str_digits\<close>: the interpreter's limit on the length of a decimal string that
    \<open>int\<close> converts (\<open>sys.get_int_max_str_digits()\<close>: 4300 by default from Python 3.11
    on, 0 when there is no limit).
  On ASCII everything is written out. An instant is an integer number of microseconds
  since 1970-01-01T00:00:00Z; a \<open>timedelta\<close> is an integer number of microseconds.
\<close>

datatype error = OverflowError | ValueError

record runtime =
  isalnum_u :: "nat \<Rightarrow> bool"
  decimal_u :: "nat \<Rightarrow> nat option"
  fromisoformat :: "pystr \<Rightarrow> int option"
  fmt_local :: "int \<Rightarrow> error + pystr"
  max_str_digits :: nat

definition isdecimal :: "runtime \<Rightarrow> nat \<Rightarrow> bool" where
  "isdecimal rt c = ((48 \<le> c \<and> c \<le> 57) \<or> (128 \<le> c \<and> decimal_u rt c \<noteq> None))"

definition digit_value :: "runtime \<Rightarrow> nat \<Rightarrow> nat" where
  "digit_value rt c =
     (if 48 \<le> c \<and> c \<le> 57 then c - 48
      else (case decimal_u rt c of Some v \<Rightarrow> v | None \<Rightarrow> 0))"

text \<open>
  \<open>int(ds)\<close> on a string of decimal digits: the number the digits denote, and
  \<open>ValueError\<close> when the string has more digits than the interpreter's limit (leading
  zeros are counted; the interpreter applies the limit to strings of more than 640
  digits only, and accepts no lower setting).
\<close>

definition int_of_digits :: "runtime \<Rightarrow> pystr \<Rightarrow> int" where
  "int_of_digits rt ds = foldl (\<lambda>a c. 10 * a + int (digit_value rt c)) 0 ds"

definition int_refused :: "runtime \<Rightarrow> pystr \<Rightarrow> bool" where
  "int_refused rt ds = (640 < length ds \<and> 0 < max_str_digits rt \<and> max_str_digits rt < length ds)"

definition py_int :: "runtime \<Rightarrow> pystr \<Rightarrow> error + int" where
  "py_int rt ds = (if int_refused rt ds then Inl ValueError else Inr (int_of_digits rt ds))"

definition isword :: "runtime \<Rightarrow> nat \<Rightarrow> bool" where
  "isword rt c =
     (c = 95 \<or> (48 \<le> c \<and> c \<le> 57) \<or> (65 \<le> c \<and> c \<le> 90) \<or> (97 \<le> c \<and> c \<le> 122) \<or>
      (128 \<le> c \<and> (isalnum_u rt c \<or> decimal_u rt c \<noteq> None)))"

section \<open>Regular expressions\<close>

text \<open>
  The patterns of the program, as syntax trees, and the backtracking matcher of \<open>re\<close>
  for the constructs they use. \<open>Lit\<close> is a literal, \<open>LitI\<close> a literal under
  \<open>re.IGNORECASE\<close>; \<open>One\<close>, \<open>Star\<close> and \<open>Plus\<close> are a character class once, \<open>*\<close> and
  \<open>+\<close> (greedy; the patterns repeat single classes only); \<open>Opt\<close> is the greedy \<open>?\<close>,
  \<open>Grp\<close> a named group, \<open>WordB\<close> the boundary \<open>\b\<close> for a given word class, \<open>Eos\<close> the
  anchor \<open>$\<close> (without \<open>re.MULTILINE\<close>).
\<close>

datatype re =
    Lit pystr
  | LitI pystr
  | One "nat \<Rightarrow> bool"
  | Star "nat \<Rightarrow> bool"
  | Plus "nat \<Rightarrow> bool"
  | Opt re
  | Seq re re
  | Alt re re
  | Grp string re
  | WordB "nat \<Rightarrow> bool"
  | Eos

text \<open>
  A position of the matcher: the code point before the position (\<open>None\<close> at the start
  of the string), the rest of the string, and the groups captured so far (the latest
  first).
\<close>

type_synonym mstate = "nat option \<times> pystr \<times> (string \<times> pystr) list"

text \<open>
  A pattern letter under \<open>re.IGNORECASE\<close> (Unicode matching of \<open>str\<close> patterns): the
  pattern letters are ASCII; besides the two ASCII cases, \<open>i\<close> matches U+0130 and U+0131,
  \<open>k\<close> matches U+212A and \<open>s\<close> matches U+017F.
\<close>

definition ascii_lower :: "nat \<Rightarrow> nat" where
  "ascii_lower c = (if 65 \<le> c \<and> c \<le> 90 then c + 32 else c)"

definition ci_eq :: "nat \<Rightarrow> nat \<Rightarrow> bool" where
  "ci_eq a c =
     (let lo = ascii_lower a in
      ascii_lower c = lo \<or> (lo = 105 \<and> (c = 0x130 \<or> c = 0x131)) \<or>
      (lo = 107 \<and> c = 0x212A) \<or> (lo = 115 \<and> c = 0x17F))"

fun lit_match :: "(nat \<Rightarrow> nat \<Rightarrow> bool) \<Rightarrow> pystr \<Rightarrow> mstate \<Rightarrow> mstate list" where
  "lit_match eq [] st = [st]"
| "lit_match eq (a # l) (p, [], g) = []"
| "lit_match eq (a # l) (p, c # s, g) = (if eq a c then lit_match eq l (Some c, s, g) else [])"

text \<open>Greedy repetition of a class: the longest run first, then each shorter one.\<close>

fun star_match :: "(nat \<Rightarrow> bool) \<Rightarrow> nat option \<Rightarrow> pystr \<Rightarrow> (string \<times> pystr) list \<Rightarrow> mstate list" where
  "star_match cls p [] g = [(p, [], g)]"
| "star_match cls p (c # s) g =
     (if cls c then star_match cls (Some c) s g @ [(p, c # s, g)] else [(p, c # s, g)])"

text \<open>
  All the ways a pattern matches at a position, in the order in which the backtracking
  matcher tries them: the head of the list is the match \<open>re\<close> reports.
\<close>

fun matches :: "re \<Rightarrow> mstate \<Rightarrow> mstate list" where
  "matches (Lit l) st = lit_match (=) l st"
| "matches (LitI l) st = lit_match ci_eq l st"
| "matches (One cls) (p, s, g) =
     (case s of [] \<Rightarrow> [] | c # s' \<Rightarrow> if cls c then [(Some c, s', g)] else [])"
| "matches (Star cls) (p, s, g) = star_match cls p s g"
| "matches (Plus cls) (p, s, g) =
     (case s of [] \<Rightarrow> [] | c # s' \<Rightarrow> if cls c then star_match cls (Some c) s' g else [])"
| "matches (Opt r) st = matches r st @ [st]"
| "matches (Seq r1 r2) st = concat (map (matches r2) (matches r1 st))"
| "matches (Alt r1 r2) st = matches r1 st @ matches r2 st"
| "matches (Grp n r) (p, s, g) =
     map (\<lambda>(p', s', g'). (p', s', (n, take (length s - length s') s) # g')) (matches r (p, s, g))"
| "matches (WordB w) (p, s, g) =
     (if (case p of None \<Rightarrow> False | Some c \<Rightarrow> w c) \<noteq> (case s of [] \<Rightarrow> False | c # _ \<Rightarrow> w c)
      then [(p, s, g)] else [])"
| "matches Eos (p, s, g) = (if s = [] \<or> s = [10] then [(p, s, g)] else [])"

text \<open>\<open>pattern.search(s)\<close>: the first match at the leftmost position that has one.\<close>

fun search_from :: "re \<Rightarrow> nat option \<Rightarrow> pystr \<Rightarrow> mstate option" where
  "search_from r p [] = (case matches r (p, [], []) of [] \<Rightarrow> None | m # _ \<Rightarrow> Some m)"
| "search_from r p (c # s) =
     (case matches r (p, c # s, []) of [] \<Rightarrow> search_from r (Some c) s | m # _ \<Rightarrow> Some m)"

definition search :: "re \<Rightarrow> pystr \<Rightarrow> mstate option" where
  "search r s = search_from r None s"

text \<open>\<open>re.fullmatch(pattern, s)\<close>: the first way of matching that uses up the string.\<close>

definition fullmatch :: "re \<Rightarrow> pystr \<Rightarrow> mstate option" where
  "fullmatch r s = find (\<lambda>(p, rest, g). rest = []) (matches r (None, s, []))"

text \<open>\<open>m.group(name)\<close>: \<open>None\<close> when the group took no part in the match.\<close>

definition group :: "mstate \<Rightarrow> string \<Rightarrow> pystr option" where
  "group m n = map_of (snd (snd m)) n"

text \<open>\<open>m.group(name) or ""\<close>; also used where the group is part of every match of its
  pattern.\<close>

definition group_str :: "mstate \<Rightarrow> string \<Rightarrow> pystr" where
  "group_str m n = (case group m n of Some s \<Rightarrow> s | None \<Rightarrow> [])"

fun seqs :: "re list \<Rightarrow> re" where
  "seqs [] = Lit []"
| "seqs [r] = r"
| "seqs (r # rs) = Seq r (seqs rs)"

definition dot :: "nat \<Rightarrow> bool" where
  "dot c = (c \<noteq> 10)"

text \<open>
  \<^verbatim>\<open>
  TS_RE = re.compile(r"(?P<ts>\d{4}-\d{2}-\d{2}T\d{2}:\d{2}:\d{2}(?:\.\d+)?Z)")
  PROVIDER_MODEL_RE = re.compile(r"\bprovider=(?P<provider>[\w-]+)\b.*\bmodel=(?P<model>[\w.\-]+)\b")
  UNKNOWN_MODEL_RE = re.compile(r"Unknown model:\s*(?P<model>[\w\-./]+)")
  MODEL_QUOTED_RE = re.compile(r'Model\s+"(?P<model>[\w\-./]+)"')
  NO_API_KEY_RE = re.compile(r'No API key found for provider\s+"(?P<provider>[\w-]+)"')
  MODEL_NOT_ALLOWED_RE = re.compile(r'Model\s+"(?P<model>[\w\-./]+)"\s+is not allowed')
  RESET_AFTER_RE = re.compile(r"reset after (?P<after>(?:\d+h)?(?:\d+m)?(?:\d+s)?)", re.IGNORECASE)
  COOLDOWN_PROVIDER_RE = re.compile(r"\bProvider\s+(?P<provider>[\w-]+)\s+is\s+in\s+cooldown\b", re.IGNORECASE)
  CAPACITY_EXHAUSTED_RE = re.compile(r"exhausted your capacity on this model", re.IGNORECASE)
  CONTEXT_LIMIT_RE = re.compile(r"(context length|max(?:imum)? tokens|token limit|too many tokens)", re.IGNORECASE)
  ALL_MODELS_FAILED_BODY_RE = re.compile(r"all models failed\s*\(\d+\)\s*:\s*(?P<body>.*)$", re.IGNORECASE)
  QUOTA_RESET_RE = re.compile(r"quota will reset after (?P<after>(?:\d+h)?(?:\d+m)?(?:\d+s)?)", re.IGNORECASE)
  LANE_AGENT_RE = re.compile(r"\blane=session:agent:(?P<agent>[^:]+):", re.IGNORECASE)
  AGENT_DIR_RE = re.compile(r"/\.openclaw/agents/(?P<agent>[^/]+)/", re.IGNORECASE)
  \<close>
  The double quote is the code point 34. The classes \<open>[\w-]\<close>, \<open>[\w.\-]\<close> and
  \<open>[\w\-./]\<close> are \<open>word_dash\<close>, \<open>word_dot_dash\<close> and \<open>model_chars\<close>.
\<close>

definition word_dash :: "runtime \<Rightarrow> nat \<Rightarrow> bool" where
  "word_dash rt c = (isword rt c \<or> c = 45)"

definition word_dot_dash :: "runtime \<Rightarrow> nat \<Rightarrow> bool" where
  "word_dot_dash rt c = (isword rt c \<or> c = 46 \<or> c = 45)"

definition model_chars :: "runtime \<Rightarrow> nat \<Rightarrow> bool" where
  "model_chars rt c = (isword rt c \<or> c = 45 \<or> c = 46 \<or> c = 47)"

text \<open>\<open>\d{2}\<close> and \<open>\d{4}\<close>\<close>

definition digits2 :: "runtime \<Rightarrow> re" where
  "digits2 rt = Seq (One (isdecimal rt)) (One (isdecimal rt))"

definition digits4 :: "runtime \<Rightarrow> re" where
  "digits4 rt = Seq (digits2 rt) (digits2 rt)"

definition TS_RE :: "runtime \<Rightarrow> re" where
  "TS_RE rt = Grp ''ts'' (seqs
     [digits4 rt, Lit (ascii ''-''), digits2 rt, Lit (ascii ''-''), digits2 rt,
      Lit (ascii ''T''), digits2 rt, Lit (ascii '':''), digits2 rt, Lit (ascii '':''),
      digits2 rt, Opt (Seq (Lit (ascii ''.'')) (Plus (isdecimal rt))), Lit (ascii ''Z'')])"

definition PROVIDER_MODEL_RE :: "runtime \<Rightarrow> re" where
  "PROVIDER_MODEL_RE rt = seqs
     [WordB (isword rt), Lit (ascii ''provider=''), Grp ''provider'' (Plus (word_dash rt)),
      WordB (isword rt), Star dot, WordB (isword rt), Lit (ascii ''model=''),
      Grp ''model'' (Plus (word_dot_dash rt)), WordB (isword rt)]"

definition UNKNOWN_MODEL_RE :: "runtime \<Rightarrow> re" where
  "UNKNOWN_MODEL_RE rt = seqs
     [Lit (ascii ''Unknown model:''), Star isspace, Grp ''model'' (Plus (model_chars rt))]"

definition MODEL_QUOTED_RE :: "runtime \<Rightarrow> re" where
  "MODEL_QUOTED_RE rt = seqs
     [Lit (ascii ''Model''), Plus isspace, Lit [34], Grp ''model'' (Plus (model_chars rt)),
      Lit [34]]"

definition NO_API_KEY_RE :: "runtime \<Rightarrow> re" where
  "NO_API_KEY_RE rt = seqs
     [Lit (ascii ''No API key found for provider''), Plus isspace, Lit [34],
      Grp ''provider'' (Plus (word_dash rt)), Lit [34]]"

definition MODEL_NOT_ALLOWED_RE :: "runtime \<Rightarrow> re" where
  "MODEL_NOT_ALLOWED_RE rt = seqs
     [Lit (ascii ''Model''), Plus isspace, Lit [34], Grp ''model'' (Plus (model_chars rt)),
      Lit [34], Plus isspace, Lit (ascii ''is not allowed'')]"

definition hms_tail :: "runtime \<Rightarrow> re" where
  "hms_tail rt = seqs
     [Opt (Seq (Plus (isdecimal rt)) (LitI (ascii ''h''))),
      Opt (Seq (Plus (isdecimal rt)) (LitI (ascii ''m''))),
      Opt (Seq (Plus (isdecimal rt)) (LitI (ascii ''s'')))]"

definition RESET_AFTER_RE :: "runtime \<Rightarrow> re" where
  "RESET_AFTER_RE rt = Seq (LitI (ascii ''reset after '')) (Grp ''after'' (hms_tail rt))"

definition COOLDOWN_PROVIDER_RE :: "runtime \<Rightarrow> re" where
  "COOLDOWN_PROVIDER_RE rt = seqs
     [WordB (isword rt), LitI (ascii ''Provider''), Plus isspace,
      Grp ''provider'' (Plus (word_dash rt)), Plus isspace, LitI (ascii ''is''), Plus isspace,
      LitI (ascii ''in''), Plus isspace, LitI (ascii ''cooldown''), WordB (isword rt)]"

definition CAPACITY_EXHAUSTED_RE :: re where
  "CAPACITY_EXHAUSTED_RE = LitI (ascii ''exhausted your capacity on this model'')"

definition CONTEXT_LIMIT_RE :: re where
  "CONTEXT_LIMIT_RE =
     Alt (LitI (ascii ''context length''))
       (Alt (seqs [LitI (ascii ''max''), Opt (LitI (ascii ''imum'')), LitI (ascii '' tokens'')])
         (Alt (LitI (ascii ''token limit'')) (LitI (ascii ''too many tokens''))))"

definition ALL_MODELS_FAILED_BODY_RE :: "runtime \<Rightarrow> re" where
  "ALL_MODELS_FAILED_BODY_RE rt = seqs
     [LitI (ascii ''all models failed''), Star isspace, Lit (ascii ''(''), Plus (isdecimal rt),
      Lit (ascii '')''), Star isspace, Lit (ascii '':''), Star isspace,
      Grp ''body'' (Star dot), Eos]"

definition QUOTA_RESET_RE :: "runtime \<Rightarrow> re" where
  "QUOTA_RESET_RE rt =
     Seq (LitI (ascii ''quota will reset after '')) (Grp ''after'' (hms_tail rt))"

definition LANE_AGENT_RE :: "runtime \<Rightarrow> re" where
  "LANE_AGENT_RE rt = seqs
     [WordB (isword rt), LitI (ascii ''lane=session:agent:''),
      Grp ''agent'' (Plus (\<lambda>c. c \<noteq> 58)), Lit (ascii '':'')]"

definition AGENT_DIR_RE :: re where
  "AGENT_DIR_RE = seqs
     [LitI (ascii ''/.openclaw/agents/''), Grp ''agent'' (Plus (\<lambda>c. c \<noteq> 47)), Lit (ascii ''/'')]"

section \<open>Durations and instants\<close>

text \<open>
  \<open>datetime.timedelta\<close> holds at most 999999999 days in magnitude and a \<open>datetime\<close> lies
  between 0001-01-01T00:00:00 and 9999-12-31T23:59:59.999999; the constructor and the
  addition raise \<open>OverflowError\<close> beyond. Nothing in the program catches it.
\<close>

definition DAY :: int where "DAY = 86400000000"
definition HOUR :: int where "HOUR = 3600000000"

text \<open>\<open>dt.timedelta(hours=h, minutes=m, seconds=s)\<close>\<close>

definition timedelta :: "int \<Rightarrow> int \<Rightarrow> int \<Rightarrow> error + int" where
  "timedelta h m s =
     (let us = (h * 3600 + m * 60 + s) * 1000000 in
      if \<bar>us div DAY\<bar> > 999999999 then Inl OverflowError else Inr us)"

definition MIN_DATETIME :: int where "MIN_DATETIME = - 62135596800000000"
definition MAX_DATETIME :: int where "MAX_DATETIME = 253402300799999999"

text \<open>\<open>t + d\<close> for a \<open>datetime\<close> in UTC and a \<open>timedelta\<close>\<close>

definition datetime_add :: "int \<Rightarrow> int \<Rightarrow> error + int" where
  "datetime_add t d =
     (if MIN_DATETIME \<le> t + d \<and> t + d \<le> MAX_DATETIME then Inr (t + d) else Inl OverflowError)"

text \<open>
  \<^verbatim>\<open>
  def _parse_hms_duration(s: str) -> dt.timedelta | None:
      raw = (s or "").strip().lower()
      if not raw:
          return None
      m = re.fullmatch(r"(?:(?P<h>\d+)h)?(?:(?P<m>\d+)m)?(?:(?P<s>\d+)s)?", raw)
      if not m:
          return None
      h = int(m.group("h") or 0)
      mm = int(m.group("m") or 0)
      ss = int(m.group("s") or 0)
      if h == 0 and mm == 0 and ss == 0:
          return None
      return dt.timedelta(hours=h, minutes=mm, seconds=ss)
  \<close>
  The three calls of \<open>int\<close> are made in this order, and each may raise \<open>ValueError\<close>.
\<close>

definition HMS_RE :: "runtime \<Rightarrow> re" where
  "HMS_RE rt = seqs
     [Opt (Seq (Grp ''h'' (Plus (isdecimal rt))) (Lit (ascii ''h''))),
      Opt (Seq (Grp ''m'' (Plus (isdecimal rt))) (Lit (ascii ''m''))),
      Opt (Seq (Grp ''s'' (Plus (isdecimal rt))) (Lit (ascii ''s'')))]"

text \<open>\<open>int(m.group(n) or 0)\<close>\<close>

definition group_int :: "runtime \<Rightarrow> mstate \<Rightarrow> string \<Rightarrow> error + int" where
  "group_int rt m n =
     (case group m n of None \<Rightarrow> Inr 0 | Some ds \<Rightarrow> if ds = [] then Inr 0 else py_int rt ds)"

definition parse_hms_duration :: "runtime \<Rightarrow> pystr \<Rightarrow> error + int option" where
  "parse_hms_duration rt s =
     (let raw = lower (strip s) in
      if raw = [] then Inr None
      else (case fullmatch (HMS_RE rt) raw of
              None \<Rightarrow> Inr None
            | Some m \<Rightarrow>
                (case group_int rt m ''h'' of
                   Inl e \<Rightarrow> Inl e
                 | Inr h \<Rightarrow>
                     (case group_int rt m ''m'' of
                        Inl e \<Rightarrow> Inl e
                      | Inr mm \<Rightarrow>
                          (case group_int rt m ''s'' of
                             Inl e \<Rightarrow> Inl e
                           | Inr ss \<Rightarrow>
                               if h = 0 \<and> mm = 0 \<and> ss = 0 then Inr None
                               else (case timedelta h mm ss of
                                       Inl e \<Rightarrow> Inl e
                                     | Inr td \<Rightarrow> Inr (Some td)))))))"

text \<open>
  \<^verbatim>\<open>
  def _reset_after_from_text(text: str) -> tuple[dt.timedelta, str] | None:
      m = RESET_AFTER_RE.search(text) or QUOTA_RESET_RE.search(text)
      if not m:
          return None
      raw = (m.group("after") or "").strip()
      td = _parse_hms_duration(raw)
      if not td:
          return None
      return td, raw
  \<close>
  A match object is always true; a \<open>timedelta\<close> is false when it is zero.
\<close>

definition reset_after_from_text :: "runtime \<Rightarrow> pystr \<Rightarrow> error + (int \<times> pystr) option" where
  "reset_after_from_text rt text =
     (case (case search (RESET_AFTER_RE rt) text of
              Some m \<Rightarrow> Some m
            | None \<Rightarrow> search (QUOTA_RESET_RE rt) text) of
        None \<Rightarrow> Inr None
      | Some m \<Rightarrow>
          (let raw = strip (group_str m ''after'') in
           case parse_hms_duration rt raw of
             Inl e \<Rightarrow> Inl e
           | Inr None \<Rightarrow> Inr None
           | Inr (Some td) \<Rightarrow> if td = 0 then Inr None else Inr (Some (td, raw))))"

text \<open>
  \<^verbatim>\<open>
  def _parse_ts_utc(line: str) -> dt.datetime | None:
      m = TS_RE.search(line)
      if not m:
          return None
      raw = m.group("ts").replace("Z", "+00:00")
      try:
          return dt.datetime.fromisoformat(raw)
      except Exception:
          return None
  \<close>
\<close>

definition parse_ts_utc :: "runtime \<Rightarrow> pystr \<Rightarrow> int option" where
  "parse_ts_utc rt line =
     (case search (TS_RE rt) line of
        None \<Rightarrow> None
      | Some m \<Rightarrow> fromisoformat rt (replace_Z (group_str m ''ts'')))"

text \<open>\<open>ts + td if ts else None\<close>, where building \<open>td\<close> may itself raise; a \<open>datetime\<close> is
  always true.\<close>

definition sticky_after :: "int option \<Rightarrow> error + int \<Rightarrow> error + int option" where
  "sticky_after ts td =
     (case ts of
        None \<Rightarrow> Inr None
      | Some t \<Rightarrow>
          (case td of
             Inl e \<Rightarrow> Inl e
           | Inr d \<Rightarrow> (case datetime_add t d of Inl e \<Rightarrow> Inl e | Inr u \<Rightarrow> Inr (Some u))))"

section \<open>The status matrix and its update\<close>

text \<open>
  \<^verbatim>\<open>
  @dataclass(frozen=True)
  class ModelRef:
      model_id: str  # "provider/model" when possible
      provider: str
      model: str
  \<close>
  A row of the matrix is the dict with the keys \<open>Provider\<close>, \<open>Model\<close>, \<open>Status\<close> and
  \<open>Diagnosis\<close>. The matrix is a \<open>dict\<close> from model id to row; a \<open>dict\<close> keeps its keys in
  the order of their first insertion, which the final stable sort can observe, so it is
  an association list updated in place (\<open>AList.update\<close> replaces the value of a key that
  is present and appends a key that is not).
\<close>

record ModelRef =
  model_id :: pystr
  provider :: pystr
  model :: pystr

record row =
  Provider :: pystr
  Model :: pystr
  Status :: pystr
  Diagnosis :: pystr

record state =
  matrix :: "(pystr \<times> row) list"
  events :: "pystr list"
  last_seen :: "(pystr \<times> int \<times> pystr) list"

text \<open>
  The row a model id gets when it is first seen (lines 282-286, 449-453, 481-485):
  \<^verbatim>\<open>
  if "/" in mid:
      p, mm = mid.split("/", 1)
  else:
      p, mm = "unknown", mid
  \<close>
\<close>

definition split_mid :: "pystr \<Rightarrow> pystr \<times> pystr" where
  "split_mid mid = (if 47 \<in> set mid then split1 47 mid else (ascii ''unknown'', mid))"

definition new_row :: "pystr \<Rightarrow> pystr \<Rightarrow> pystr \<Rightarrow> row" where
  "new_row mid status diagnosis =
     \<lparr>Provider = fst (split_mid mid), Model = snd (split_mid mid), Status = status,
      Diagnosis = diagnosis\<rparr>"

definition default_row :: "pystr \<Rightarrow> row" where
  "default_row mid = new_row mid STATUS_HEALTHY DIAG_DEFAULT"

text \<open>\<open>events.append(event)\<close> under \<open>if event:\<close>, for an \<open>event: str | None\<close>\<close>

definition append_event :: "pystr option \<Rightarrow> pystr list \<Rightarrow> pystr list" where
  "append_event event evs =
     (case event of None \<Rightarrow> evs | Some e \<Rightarrow> if e = [] then evs else evs @ [e])"

text \<open>
  \<^verbatim>\<open>
  def apply(mid: str, status: str, diagnosis: str, event: str | None) -> None:
      if mid not in matrix:
          (p, mm as above)
          matrix[mid] = {"Provider": p, "Model": mm, "Status": <healthy>, "Diagnosis": <default>}
      matrix[mid]["Status"] = _worse_status(matrix[mid]["Status"], status)
      if diagnosis:
          # Prefer non-generic diagnosis, and update when status is non-green.
          if matrix[mid]["Diagnosis"].startswith(<generic prefix>)
                  or matrix[mid]["Status"].lstrip()[:1] != <green>:
              matrix[mid]["Diagnosis"] = diagnosis
      if event:
          events.append(event)
  \<close>
  (\<open>apply\<close> is a keyword of Isabelle, hence \<open>apply_status\<close>.) \<open>current_row\<close> is
  \<open>matrix[mid]\<close> after the first \<open>if\<close>: the row of \<open>mid\<close>, or the default row it then gets.
\<close>

definition current_row :: "state \<Rightarrow> pystr \<Rightarrow> row" where
  "current_row st mid = (case map_of (matrix st) mid of None \<Rightarrow> default_row mid | Some r \<Rightarrow> r)"

definition apply_status :: "state \<Rightarrow> pystr \<Rightarrow> pystr \<Rightarrow> pystr \<Rightarrow> pystr option \<Rightarrow> state" where
  "apply_status st mid status diagnosis event =
     (let r0 = current_row st mid;
          r1 = r0\<lparr>Status := worse_status (Status r0) status\<rparr>;
          r2 = (if diagnosis \<noteq> [] \<and>
                   (startswith (Diagnosis r1) DIAG_GENERIC_PREFIX \<or> glyph (Status r1) \<noteq> GREEN)
                then r1\<lparr>Diagnosis := diagnosis\<rparr> else r1)
      in st\<lparr>matrix := AList.update mid r2 (matrix st),
            events := append_event event (events st)\<rparr>)"

text \<open>
  \<^verbatim>\<open>
  def record_last(mid: str, kind: str) -> None:
      if not ts:
          return
      prev = last_seen.get(mid)
      if not prev or ts > prev[0]:
          last_seen[mid] = (ts, kind)
  \<close>
\<close>

definition record_last :: "int option \<Rightarrow> state \<Rightarrow> pystr \<Rightarrow> pystr \<Rightarrow> state" where
  "record_last ts st mid kind =
     (case ts of
        None \<Rightarrow> st
      | Some t \<Rightarrow>
          (case map_of (last_seen st) mid of
             None \<Rightarrow> st\<lparr>last_seen := AList.update mid (t, kind) (last_seen st)\<rparr>
           | Some prev \<Rightarrow>
               if t > fst prev then st\<lparr>last_seen := AList.update mid (t, kind) (last_seen st)\<rparr>
               else st))"

text \<open>
  \<^verbatim>\<open>
  def apply_incident(mid, *, kind, base_status, diagnosis, sticky_until, event) -> None:
      # If incident is still "active" (sticky), apply severity; otherwise keep green but enrich diagnosis.
      active = False
      if ts and sticky_until and now_utc < sticky_until:
          active = True
      if active:
          apply(mid, base_status, diagnosis, event)
      else:
          # Avoid falsely asserting "healthy" when we only saw an old incident.
          # Keep status as-is, but carry the breadcrumb in diagnosis (unless already non-green).
          if mid not in matrix:
              apply(mid, <healthy>, <default>, None)
          if matrix[mid]["Status"].lstrip()[:1] == <green>:
              matrix[mid]["Diagnosis"] = f"<most recent anomaly>: [{ts_local}] {kind}<outside window...>"
          if event:
              events.append(event)
      record_last(mid, kind)
  \<close>
  \<open>now_utc\<close>, \<open>ts\<close> and \<open>ts_local\<close> are the variables of the enclosing scope;
  \<open>is_active\<close> is the value of \<open>active\<close> and \<open>stale_incident\<close> the \<open>else\<close> branch.
\<close>

definition is_active :: "int \<Rightarrow> int option \<Rightarrow> int option \<Rightarrow> bool" where
  "is_active now_utc ts sticky_until =
     (case ts of
        None \<Rightarrow> False
      | Some t \<Rightarrow> (case sticky_until of None \<Rightarrow> False | Some u \<Rightarrow> now_utc < u))"

definition breadcrumb :: "pystr \<Rightarrow> pystr \<Rightarrow> pystr" where
  "breadcrumb ts_local kind = BREADCRUMB_HEAD @ ts_local @ ascii ''] '' @ kind @ BREADCRUMB_TAIL"

definition stale_incident :: "pystr \<Rightarrow> state \<Rightarrow> pystr \<Rightarrow> pystr \<Rightarrow> pystr option \<Rightarrow> state" where
  "stale_incident ts_local st mid kind event =
     (let st1 = (if map_of (matrix st) mid = None
                 then apply_status st mid STATUS_HEALTHY DIAG_DEFAULT None else st);
          st2 = (case map_of (matrix st1) mid of
                   None \<Rightarrow> st1
                 | Some r \<Rightarrow>
                     if glyph (Status r) = GREEN
                     then st1\<lparr>matrix :=
                            AList.update mid (r\<lparr>Diagnosis := breadcrumb ts_local kind\<rparr>) (matrix st1)\<rparr>
                     else st1)
      in st2\<lparr>events := append_event event (events st2)\<rparr>)"

definition apply_incident ::
  "int \<Rightarrow> int option \<Rightarrow> pystr \<Rightarrow> state \<Rightarrow> pystr \<Rightarrow> pystr \<Rightarrow> pystr \<Rightarrow> pystr \<Rightarrow> int option \<Rightarrow>
   pystr option \<Rightarrow> state" where
  "apply_incident now_utc ts ts_local st mid kind base_status diagnosis sticky_until event =
     record_last ts
       (if is_active now_utc ts sticky_until
        then apply_status st mid base_status diagnosis event
        else stale_incident ts_local st mid kind event)
       mid kind"

section \<open>Classifying one line\<close>

text \<open>
  \<^verbatim>\<open>
  def _extract_provider_model(line: str) -> tuple[str | None, str | None, str | None]:
      m = PROVIDER_MODEL_RE.search(line)
      if m:
          provider = m.group("provider")
          model = m.group("model")
          return provider, model, _normalize_model_id(provider, model)
      mq = MODEL_QUOTED_RE.search(line)
      if mq:
          mid = mq.group("model")
          if "/" in mid:
              p, mm = mid.split("/", 1)
              return p, mm, mid
          return None, mid, mid
      return None, None, None
  \<close>
\<close>

definition normalize_model_id :: "pystr \<Rightarrow> pystr \<Rightarrow> pystr" where
  "normalize_model_id p m = p @ ascii ''/'' @ m"

definition extract_provider_model ::
  "runtime \<Rightarrow> pystr \<Rightarrow> pystr option \<times> pystr option \<times> pystr option" where
  "extract_provider_model rt line =
     (case search (PROVIDER_MODEL_RE rt) line of
        Some m \<Rightarrow>
          (Some (group_str m ''provider''), Some (group_str m ''model''),
           Some (normalize_model_id (group_str m ''provider'') (group_str m ''model'')))
      | None \<Rightarrow>
          (case search (MODEL_QUOTED_RE rt) line of
             Some mq \<Rightarrow>
               (let mid = group_str mq ''model'' in
                if 47 \<in> set mid then (Some (fst (split1 47 mid)), Some (snd (split1 47 mid)), Some mid)
                else (None, Some mid, Some mid))
           | None \<Rightarrow> (None, None, None)))"

text \<open>
  \<^verbatim>\<open>
  def _find_model_refs_in_line(line: str, models: list[ModelRef]) -> list[ModelRef]:
      out: list[ModelRef] = []
      for m in models:
          if m.model_id in line:
              out.append(m)
      return out
  \<close>
  and the lookup \<open>by_provider_model = {(m.provider, m.model): m for m in models}\<close>, in
  which a later model replaces an earlier one with the same key.
\<close>

definition find_model_refs_in_line :: "pystr \<Rightarrow> ModelRef list \<Rightarrow> ModelRef list" where
  "find_model_refs_in_line line models = filter (\<lambda>m. isin (model_id m) line) models"

definition by_provider_model :: "ModelRef list \<Rightarrow> pystr \<Rightarrow> pystr \<Rightarrow> ModelRef option" where
  "by_provider_model models p mo = find (\<lambda>m. provider m = p \<and> model m = mo) (rev models)"

text \<open>The truth value of a \<open>str | None\<close>.\<close>

definition truthy :: "pystr option \<Rightarrow> bool" where
  "truthy x = (case x of None \<Rightarrow> False | Some s \<Rightarrow> s \<noteq> [])"

text \<open>A \<open>for\<close> loop over a list whose body may raise.\<close>

fun fold_err :: "('s \<Rightarrow> 'a \<Rightarrow> error + 's) \<Rightarrow> 'a list \<Rightarrow> 's \<Rightarrow> error + 's" where
  "fold_err f [] s = Inr s"
| "fold_err f (x # xs) s = (case f s x of Inl e \<Rightarrow> Inl e | Inr s' \<Rightarrow> fold_err f xs s')"

text \<open>The event strings \<open>f"[{ts_local}] {mid}: {what}"\<close> and
  \<open>f"[{ts_local}] {what}"\<close>.\<close>

definition model_event :: "pystr \<Rightarrow> pystr \<Rightarrow> pystr \<Rightarrow> pystr" where
  "model_event ts_local mid what = ascii ''['' @ ts_local @ ascii ''] '' @ mid @ ascii '': '' @ what"

definition line_event :: "pystr \<Rightarrow> pystr \<Rightarrow> pystr" where
  "line_event ts_local what = ascii ''['' @ ts_local @ ascii ''] '' @ what"

text \<open>
  The recovery hint and the rate-limit policy, the same text at lines 345-373 (segment of
  an aggregate failure) and 498-513 (line attributed to a model):
  \<^verbatim>\<open>
  reset_td = reset_info[0] if reset_info else None
  reset_raw = reset_info[1] if reset_info else ""
  recovery = f"<expected> {reset_raw} <to reset>" if reset_td and reset_raw else ""
  if reset_td and reset_td <= dt.timedelta(hours=1):
      sticky_until = ts + reset_td if ts else None
      status = "<yellow> 429 <throttled>"
      diag = f"429 <throttled (short-term/RPM likely)>.{recovery}".strip()
  elif reset_td:
      sticky_until = ts + reset_td if ts else None
      status = "<red> 429 <quota/capacity limit>"
      diag = f"429 <quota/capacity limit (must wait for reset)>.{recovery}".strip()
  else:
      sticky_until = ts + dt.timedelta(minutes=rate_limit_sticky_minutes) if ts else None
      status = "<yellow> 429 <throttled>"
      diag = "429 <throttled (may be RPM/concurrency)>."
  \<close>
  \<open>rate_limit_policy\<close> returns \<open>(status, diag, sticky_until)\<close>.
\<close>

definition recovery_text :: "(int \<times> pystr) option \<Rightarrow> pystr" where
  "recovery_text reset_info =
     (case reset_info of
        None \<Rightarrow> []
      | Some (td, raw) \<Rightarrow> if td \<noteq> 0 \<and> raw \<noteq> [] then RECOVERY_HEAD @ raw @ RECOVERY_TAIL else [])"

definition rate_limit_policy ::
  "int \<Rightarrow> int option \<Rightarrow> (int \<times> pystr) option \<Rightarrow> error + (pystr \<times> pystr \<times> int option)" where
  "rate_limit_policy rate_limit_sticky_minutes ts reset_info =
     (let recovery = recovery_text reset_info;
          reset_td = (case reset_info of None \<Rightarrow> 0 | Some (td, raw) \<Rightarrow> td)
      in
      if reset_td \<noteq> 0 \<and> reset_td \<le> HOUR then
        (case sticky_after ts (Inr reset_td) of
           Inl e \<Rightarrow> Inl e
         | Inr su \<Rightarrow> Inr (STATUS_429, strip (DIAG_429_SHORT @ recovery), su))
      else if reset_td \<noteq> 0 then
        (case sticky_after ts (Inr reset_td) of
           Inl e \<Rightarrow> Inl e
         | Inr su \<Rightarrow> Inr (STATUS_429_QUOTA, strip (DIAG_429_QUOTA @ recovery), su))
      else
        (case sticky_after ts (timedelta 0 rate_limit_sticky_minutes 0) of
           Inl e \<Rightarrow> Inl e
         | Inr su \<Rightarrow> Inr (STATUS_429, DIAG_429_DEFAULT, su)))"

text \<open>
  One segment of an aggregate failure, the body of the loop at lines 334-401:
  \<^verbatim>\<open>
  for raw_seg in body.split("|"):
      seg = raw_seg.strip()
      if ":" not in seg:
          continue
      mid, msg = seg.split(":", 1)
      mid = mid.strip()
      msg = msg.strip()
      # Guard: only accept real model ids (or already-known rows).
      if "/" not in mid and mid not in matrix:
          continue
      mlow = msg.lower()
      reset_info = _reset_after_from_text(msg)
      (reset_td, reset_raw, recovery as above)
      if "cooldown" in mlow or COOLDOWN_PROVIDER_RE.search(msg):
          sticky_until = ts + dt.timedelta(minutes=cooldown_sticky_minutes) if ts else None
          apply_incident(mid, kind="cooldown", base_status=..., diagnosis=...,
                         sticky_until=sticky_until, event=f"[{ts_local}] {mid}: cooldown")
      elif "429" in mlow or "rate_limit" in mlow or CAPACITY_EXHAUSTED_RE.search(msg):
          (the rate-limit policy)
          apply_incident(mid, kind="429/rate_limit", base_status=status, diagnosis=diag,
                         sticky_until=sticky_until,
                         event=f"[{ts_local}] {mid}: 429/rate_limit {recovery}".strip())
      elif "timeout" in mlow or "etimedout" in mlow:
          sticky_until = ts + dt.timedelta(minutes=30) if ts else None
          apply_incident(mid, kind="timeout", ..., event=f"[{ts_local}] {mid}: timeout")
      elif CONTEXT_LIMIT_RE.search(msg):
          sticky_until = ts + dt.timedelta(hours=6) if ts else None
          apply_incident(mid, kind="token/context limit", ...,
                         event=f"[{ts_local}] {mid}: token/context limit")
  \<close>
\<close>

definition classify_segment ::
  "runtime \<Rightarrow> int \<Rightarrow> int \<Rightarrow> int \<Rightarrow> int option \<Rightarrow> pystr \<Rightarrow> state \<Rightarrow> pystr \<Rightarrow> error + state" where
  "classify_segment rt now_utc cooldown_sticky_minutes rate_limit_sticky_minutes ts ts_local st raw_seg =
     (let seg = strip raw_seg in
      if 58 \<notin> set seg then Inr st
      else
        (let mid = strip (fst (split1 58 seg)); msg = strip (snd (split1 58 seg)) in
         if 47 \<notin> set mid \<and> map_of (matrix st) mid = None then Inr st
         else
           (let mlow = lower msg in
            case reset_after_from_text rt msg of
              Inl e \<Rightarrow> Inl e
            | Inr reset_info \<Rightarrow>
                if isin (ascii ''cooldown'') mlow \<or> search (COOLDOWN_PROVIDER_RE rt) msg \<noteq> None then
                  (case sticky_after ts (timedelta 0 cooldown_sticky_minutes 0) of
                     Inl e \<Rightarrow> Inl e
                   | Inr sticky_until \<Rightarrow>
                       Inr (apply_incident now_utc ts ts_local st mid (ascii ''cooldown'')
                              STATUS_COOLDOWN DIAG_SEG_COOLDOWN sticky_until
                              (Some (model_event ts_local mid (ascii ''cooldown'')))))
                else if isin (ascii ''429'') mlow \<or> isin (ascii ''rate_limit'') mlow \<or>
                        search CAPACITY_EXHAUSTED_RE msg \<noteq> None then
                  (case rate_limit_policy rate_limit_sticky_minutes ts reset_info of
                     Inl e \<Rightarrow> Inl e
                   | Inr (status, diag, sticky_until) \<Rightarrow>
                       Inr (apply_incident now_utc ts ts_local st mid (ascii ''429/rate_limit'')
                              status diag sticky_until
                              (Some (strip (model_event ts_local mid
                                 (ascii ''429/rate_limit '' @ recovery_text reset_info))))))
                else if isin (ascii ''timeout'') mlow \<or> isin (ascii ''etimedout'') mlow then
                  (case sticky_after ts (timedelta 0 30 0) of
                     Inl e \<Rightarrow> Inl e
                   | Inr sticky_until \<Rightarrow>
                       Inr (apply_incident now_utc ts ts_local st mid (ascii ''timeout'')
                              STATUS_TIMEOUT DIAG_TIMEOUT sticky_until
                              (Some (model_event ts_local mid (ascii ''timeout'')))))
                else if search CONTEXT_LIMIT_RE msg \<noteq> None then
                  (case sticky_after ts (timedelta 6 0 0) of
                     Inl e \<Rightarrow> Inl e
                   | Inr sticky_until \<Rightarrow>
                       Inr (apply_incident now_utc ts ts_local st mid (ascii ''token/context limit'')
                              STATUS_CONTEXT DIAG_CONTEXT sticky_until
                              (Some (model_event ts_local mid (ascii ''token/context limit'')))))
                else Inr st)))"

text \<open>
  One model id a line is attributed to, the body of the loop at lines 478-541: the row
  is created when it is missing, then the same chain of tests on the whole line, where
  \<open>_reset_after_from_text(line)\<close> is called in the rate-limit branch only and the cooldown
  diagnosis is another literal.
\<close>

definition classify_model ::
  "runtime \<Rightarrow> int \<Rightarrow> int \<Rightarrow> int \<Rightarrow> int option \<Rightarrow> pystr \<Rightarrow> pystr \<Rightarrow> state \<Rightarrow> pystr \<Rightarrow> error + state" where
  "classify_model rt now_utc cooldown_sticky_minutes rate_limit_sticky_minutes ts ts_local line st0 mid =
     (let st = (if map_of (matrix st0) mid = None
                then st0\<lparr>matrix := AList.update mid (default_row mid) (matrix st0)\<rparr> else st0);
          lowered = lower line
      in
      if isin (ascii ''cooldown'') lowered \<or> search (COOLDOWN_PROVIDER_RE rt) line \<noteq> None then
        (case sticky_after ts (timedelta 0 cooldown_sticky_minutes 0) of
           Inl e \<Rightarrow> Inl e
         | Inr sticky_until \<Rightarrow>
             Inr (apply_incident now_utc ts ts_local st mid (ascii ''cooldown'')
                    STATUS_COOLDOWN DIAG_COOLDOWN sticky_until
                    (Some (model_event ts_local mid (ascii ''cooldown'')))))
      else if isin (ascii ''429'') lowered \<or> isin (ascii ''rate_limit'') lowered \<or>
              search CAPACITY_EXHAUSTED_RE line \<noteq> None then
        (case reset_after_from_text rt line of
           Inl e \<Rightarrow> Inl e
         | Inr reset_info \<Rightarrow>
             (case rate_limit_policy rate_limit_sticky_minutes ts reset_info of
                Inl e \<Rightarrow> Inl e
              | Inr (status, diag, sticky_until) \<Rightarrow>
                  Inr (apply_incident now_utc ts ts_local st mid (ascii ''429/rate_limit'')
                         status diag sticky_until
                         (Some (strip (model_event ts_local mid
                            (ascii ''429/rate_limit '' @ recovery_text reset_info)))))))
      else if isin (ascii ''timeout'') lowered \<or> isin (ascii ''etimedout'') lowered then
        (case sticky_after ts (timedelta 0 30 0) of
           Inl e \<Rightarrow> Inl e
         | Inr sticky_until \<Rightarrow>
             Inr (apply_incident now_utc ts ts_local st mid (ascii ''timeout'')
                    STATUS_TIMEOUT DIAG_TIMEOUT sticky_until
                    (Some (model_event ts_local mid (ascii ''timeout'')))))
      else if search CONTEXT_LIMIT_RE line \<noteq> None then
        (case sticky_after ts (timedelta 6 0 0) of
           Inl e \<Rightarrow> Inl e
         | Inr sticky_until \<Rightarrow>
             Inr (apply_incident now_utc ts ts_local st mid (ascii ''token/context limit'')
                    STATUS_CONTEXT DIAG_CONTEXT sticky_until
                    (Some (model_event ts_local mid (ascii ''token/context limit'')))))
      else Inr st)"

text \<open>
  The provider-level rules. Missing credential (lines 413-422):
  \<^verbatim>\<open>
  nk = NO_API_KEY_RE.search(line)
  if nk:
      p = nk.group("provider")
      events.append(f"[{ts_local}] provider={p}: No API key")
      for m in models:
          if m.provider != p:
              continue
          apply(m.model_id, "<red> <configuration missing>", "<API key not configured ...>", None)
      continue
  \<close>
  Provider cooldown (lines 424-440), tried when no model id was attributed:
  \<^verbatim>\<open>
  cp = COOLDOWN_PROVIDER_RE.search(line)
  if cp and not model_id and not matched_models:
      p = cp.group("provider")
      events.append(f"[{ts_local}] provider={p}: cooldown")
      for m in models:
          if m.provider != p:
              continue
          sticky_until = ts + dt.timedelta(minutes=cooldown_sticky_minutes) if ts else None
          apply_incident(m.model_id, kind="provider cooldown", base_status=..., diagnosis=...,
                         sticky_until=sticky_until, event=None)
      continue
  \<close>
\<close>

definition no_api_key :: "ModelRef list \<Rightarrow> pystr \<Rightarrow> state \<Rightarrow> pystr \<Rightarrow> state" where
  "no_api_key models ts_local st p =
     foldl (\<lambda>s m. if provider m \<noteq> p then s
                   else apply_status s (model_id m) STATUS_NO_KEY DIAG_NO_KEY None)
       (st\<lparr>events := events st @ [line_event ts_local (ascii ''provider='' @ p @ ascii '': No API key'')]\<rparr>)
       models"

definition provider_cooldown ::
  "ModelRef list \<Rightarrow> int \<Rightarrow> int \<Rightarrow> int option \<Rightarrow> pystr \<Rightarrow> state \<Rightarrow> pystr \<Rightarrow> error + state" where
  "provider_cooldown models now_utc cooldown_sticky_minutes ts ts_local st p =
     fold_err (\<lambda>s m. if provider m \<noteq> p then Inr s
                     else (case sticky_after ts (timedelta 0 cooldown_sticky_minutes 0) of
                             Inl e \<Rightarrow> Inl e
                           | Inr sticky_until \<Rightarrow>
                               Inr (apply_incident now_utc ts ts_local s (model_id m)
                                      (ascii ''provider cooldown'') STATUS_COOLDOWN
                                      DIAG_PROVIDER_COOLDOWN sticky_until None)))
       models
       (st\<lparr>events := events st @ [line_event ts_local (ascii ''provider='' @ p @ ascii '': cooldown'')]\<rparr>)"

text \<open>
  Unknown or disallowed model (lines 443-456):
  \<^verbatim>\<open>
  um = UNKNOWN_MODEL_RE.search(line) or MODEL_NOT_ALLOWED_RE.search(line)
  if um:
      mid = um.group("model")
      events.append(f"[{ts_local}] model={mid}: Unknown/Not allowed")
      if mid not in matrix:
          # Add an "observed" row so the report remains complete.
          (p, mm from mid)
          matrix[mid] = {"Provider": p, "Model": mm, "Status": "<red> <model invalid>",
                         "Diagnosis": "Unknown model / not allowed"}
      else:
          apply(mid, "<red> <model invalid>", "Unknown model / not allowed", None)
      continue
  \<close>
\<close>

definition unknown_model :: "pystr \<Rightarrow> state \<Rightarrow> pystr \<Rightarrow> state" where
  "unknown_model ts_local st0 mid =
     (let st = st0\<lparr>events := events st0 @
                 [line_event ts_local (ascii ''model='' @ mid @ ascii '': Unknown/Not allowed'')]\<rparr>
      in
      if map_of (matrix st) mid = None
      then st\<lparr>matrix := AList.update mid (new_row mid STATUS_BAD_MODEL DIAG_BAD_MODEL) (matrix st)\<rparr>
      else apply_status st mid STATUS_BAD_MODEL DIAG_BAD_MODEL None)"

text \<open>
  A line no model id is attributed to (lines 465-476) leaves a breadcrumb in the
  timeline only:
  \<^verbatim>\<open>
  if not model_ids:
      lowered = line.lower()
      if "429" in lowered or "rate_limit" in lowered or CAPACITY_EXHAUSTED_RE.search(line):
          (reset_info, reset_td, reset_raw, recovery from the line)
          events.append(f"[{ts_local}] rate_limit(unknown model) {recovery}".strip())
      elif CONTEXT_LIMIT_RE.search(line):
          events.append(f"[{ts_local}] token/context limit (unknown model)")
      continue
  \<close>
\<close>

definition unattributed :: "runtime \<Rightarrow> pystr \<Rightarrow> pystr \<Rightarrow> state \<Rightarrow> error + state" where
  "unattributed rt ts_local line st =
     (let lowered = lower line in
      if isin (ascii ''429'') lowered \<or> isin (ascii ''rate_limit'') lowered \<or>
         search CAPACITY_EXHAUSTED_RE line \<noteq> None then
        (case reset_after_from_text rt line of
           Inl e \<Rightarrow> Inl e
         | Inr reset_info \<Rightarrow>
             Inr (st\<lparr>events := events st @
                    [strip (line_event ts_local
                       (ascii ''rate_limit(unknown model) '' @ recovery_text reset_info))]\<rparr>))
      else if search CONTEXT_LIMIT_RE line \<noteq> None then
        Inr (st\<lparr>events := events st @
               [line_event ts_local (ascii ''token/context limit (unknown model)'')]\<rparr>)
      else Inr st)"

text \<open>
  The agent-scope filter (lines 269-274): a line of another agent is skipped.
  \<^verbatim>\<open>
  ma = LANE_AGENT_RE.search(line)
  if ma and ma.group("agent").strip().lower() != "main":
      continue
  md = AGENT_DIR_RE.search(line)
  if md and md.group("agent").strip().lower() != "main":
      continue
  \<close>
\<close>

definition other_agent :: "mstate option \<Rightarrow> bool" where
  "other_agent ma =
     (case ma of None \<Rightarrow> False | Some m \<Rightarrow> lower (strip (group_str m ''agent'')) \<noteq> ascii ''main'')"

text \<open>
  A line that is not an aggregate failure (lines 404-541): the attribution
  \<^verbatim>\<open>
  provider, model, model_id = _extract_provider_model(line)
  resolved = None
  if provider and model:
      resolved = by_provider_model.get((provider, model))
  if resolved:
      model_id = resolved.model_id
  matched_models = _find_model_refs_in_line(line, models) if not model_id else []
  \<close>
  then the provider-level rules, the unknown-model rule, and
  \<^verbatim>\<open>
  model_ids: list[str] = []
  if model_id:
      model_ids = [model_id]
  elif matched_models:
      model_ids = [m.model_id for m in matched_models]
  \<close>
  with the loop over \<open>model_ids\<close>.
\<close>

definition attributed_line ::
  "runtime \<Rightarrow> ModelRef list \<Rightarrow> int \<Rightarrow> int \<Rightarrow> int \<Rightarrow> int option \<Rightarrow> pystr \<Rightarrow> state \<Rightarrow> pystr \<Rightarrow>
   error + state" where
  "attributed_line rt models now_utc cooldown_sticky_minutes rate_limit_sticky_minutes ts ts_local st line =
     (let pm = extract_provider_model rt line;
          provider0 = fst pm; model0 = fst (snd pm); model_id0 = snd (snd pm);
          resolved = (if truthy provider0 \<and> truthy model0
                      then (case provider0 of
                              None \<Rightarrow> None
                            | Some p \<Rightarrow> (case model0 of
                                           None \<Rightarrow> None
                                         | Some mo \<Rightarrow> by_provider_model models p mo))
                      else None);
          model_id1 = (case resolved of None \<Rightarrow> model_id0 | Some r \<Rightarrow> Some (model_id r));
          matched_models = (if \<not> truthy model_id1 then find_model_refs_in_line line models else [])
      in
      case search (NO_API_KEY_RE rt) line of
        Some nk \<Rightarrow> Inr (no_api_key models ts_local st (group_str nk ''provider''))
      | None \<Rightarrow>
          (case (if \<not> truthy model_id1 \<and> matched_models = []
                 then search (COOLDOWN_PROVIDER_RE rt) line else None) of
             Some cp \<Rightarrow>
               provider_cooldown models now_utc cooldown_sticky_minutes ts ts_local st
                 (group_str cp ''provider'')
           | None \<Rightarrow>
               (case (case search (UNKNOWN_MODEL_RE rt) line of
                        Some m \<Rightarrow> Some m
                      | None \<Rightarrow> search (MODEL_NOT_ALLOWED_RE rt) line) of
                  Some um \<Rightarrow> Inr (unknown_model ts_local st (group_str um ''model''))
                | None \<Rightarrow>
                    (let model_ids =
                           (if truthy model_id1
                            then (case model_id1 of None \<Rightarrow> [] | Some i \<Rightarrow> [i])
                            else map model_id matched_models)
                     in
                     if model_ids = [] then unattributed rt ts_local line st
                     else fold_err
                            (classify_model rt now_utc cooldown_sticky_minutes
                               rate_limit_sticky_minutes ts ts_local line)
                            model_ids st))))"

text \<open>
  \<open>ts_local = _fmt_local(ts, tz) if ts else "??:??"\<close> (line 277), which raises when
  \<open>_fmt_local\<close> does.
\<close>

definition local_time :: "runtime \<Rightarrow> int option \<Rightarrow> error + pystr" where
  "local_time rt ts = (case ts of None \<Rightarrow> Inr (ascii ''??:??'') | Some t \<Rightarrow> fmt_local rt t)"

text \<open>
  The body of the loop over the lines (lines 267-541): the agent-scope filter, the
  timestamp and its local rendering (an exception there ends the pass), the aggregate
  failure
  \<^verbatim>\<open>
  m_failed = ALL_MODELS_FAILED_BODY_RE.search(line)
  if m_failed:
      body = m_failed.group("body")
      for raw_seg in body.split("|"):
          ...
      continue
  \<close>
  and every other line.
\<close>

definition process_line ::
  "runtime \<Rightarrow> ModelRef list \<Rightarrow> int \<Rightarrow> int \<Rightarrow> int \<Rightarrow> state \<Rightarrow> pystr \<Rightarrow> error + state" where
  "process_line rt models now_utc cooldown_sticky_minutes rate_limit_sticky_minutes st line =
     (if other_agent (search (LANE_AGENT_RE rt) line) then Inr st
      else if other_agent (search AGENT_DIR_RE line) then Inr st
      else
        (let ts = parse_ts_utc rt line in
         case local_time rt ts of
           Inl e \<Rightarrow> Inl e
         | Inr ts_local \<Rightarrow>
             (case search (ALL_MODELS_FAILED_BODY_RE rt) line of
                Some m_failed \<Rightarrow>
                  fold_err
                    (classify_segment rt now_utc cooldown_sticky_minutes rate_limit_sticky_minutes
                       ts ts_local)
                    (split_on 124 (group_str m_failed ''body'')) st
              | None \<Rightarrow>
                  attributed_line rt models now_utc cooldown_sticky_minutes
                    rate_limit_sticky_minutes ts ts_local st line)))"

section \<open>The aggregation pass\<close>

text \<open>
  \<open>parse_llm_status\<close>: the matrix starts with a healthy row for every configured model,
  the lines are processed in order, the rows are sorted by \<open>(Provider, Model)\<close> (a stable
  sort; strings compare code point by code point), and the events are de-duplicated and
  cut to the last 30:
  \<^verbatim>\<open>
  seen_ev: set[str] = set()
  uniq_events: list[str] = []
  for e in events:
      if e in seen_ev:
          continue
      seen_ev.add(e)
      uniq_events.append(e)
  return rows, uniq_events[-30:]
  \<close>
\<close>

definition initial_state :: "ModelRef list \<Rightarrow> state" where
  "initial_state models =
     \<lparr>matrix = foldl (\<lambda>mx m. AList.update (model_id m)
                  \<lparr>Provider = provider m, Model = model m, Status = STATUS_HEALTHY,
                   Diagnosis = DIAG_DEFAULT\<rparr> mx) [] models,
      events = [], last_seen = []\<rparr>"

definition run_lines ::
  "runtime \<Rightarrow> ModelRef list \<Rightarrow> int \<Rightarrow> int \<Rightarrow> int \<Rightarrow> pystr list \<Rightarrow> state \<Rightarrow> error + state" where
  "run_lines rt models now_utc cooldown_sticky_minutes rate_limit_sticky_minutes lines st =
     fold_err (process_line rt models now_utc cooldown_sticky_minutes rate_limit_sticky_minutes)
       lines st"

fun uniq_events :: "pystr set \<Rightarrow> pystr list \<Rightarrow> pystr list" where
  "uniq_events seen_ev [] = []"
| "uniq_events seen_ev (e # es) =
     (if e \<in> seen_ev then uniq_events seen_ev es else e # uniq_events (insert e seen_ev) es)"

text \<open>\<open>xs[-30:]\<close>\<close>

definition last30 :: "'a list \<Rightarrow> 'a list" where
  "last30 xs = drop (length xs - 30) xs"

definition event_timeline :: "pystr list \<Rightarrow> pystr list" where
  "event_timeline evs = last30 (uniq_events {} evs)"

definition sorted_rows :: "(pystr \<times> row) list \<Rightarrow> row list" where
  "sorted_rows mx = sort_key (\<lambda>r. (Provider r, Model r)) (map snd mx)"

definition parse_llm_status ::
  "runtime \<Rightarrow> pystr list \<Rightarrow> ModelRef list \<Rightarrow> int \<Rightarrow> int \<Rightarrow> int \<Rightarrow> error + (row list \<times> pystr list)" where
  "parse_llm_status rt lines models now_utc cooldown_sticky_minutes rate_limit_sticky_minutes =
     (case run_lines rt models now_utc cooldown_sticky_minutes rate_limit_sticky_minutes lines
             (initial_state models) of
        Inl e \<Rightarrow> Inl e
      | Inr st \<Rightarrow> Inr (sorted_rows (matrix st), event_timeline (events st)))"

section \<open>Restart events\<close>

text \<open>
  \<open>analyze_restarts(lines, watchdog_events, tz)\<close>. A watchdog record is a JSON object; the
  program reads its \<open>type\<close>, compared with \<open>"gateway_restart"\<close>, and the \<open>str\<close> of its
  \<open>timestamp\<close>: \<open>ev_type\<close> is the type when it is a string and \<open>None\<close> otherwise.
  \<^verbatim>\<open>
  wd_restart_times: list[dt.datetime] = []
  for e in watchdog_events:
      if e.get("type") != "gateway_restart":
          continue
      ts_raw = e.get("timestamp")
      try:
          ts = dt.datetime.fromisoformat(str(ts_raw).replace("Z", "+00:00"))
      except Exception:
          continue
      if ts.tzinfo is None:
          ts = ts.replace(tzinfo=dt.timezone.utc)
      wd_restart_times.append(ts)
  \<close>
\<close>

record watchdog_event =
  ev_type :: "pystr option"
  ev_timestamp :: pystr

definition wd_restart_times :: "runtime \<Rightarrow> watchdog_event list \<Rightarrow> int list" where
  "wd_restart_times rt watchdog_events =
     List.map_filter
       (\<lambda>e. if ev_type e \<noteq> Some (ascii ''gateway_restart'') then None
            else fromisoformat rt (replace_Z (ev_timestamp e)))
       watchdog_events"

text \<open>
  \<^verbatim>\<open>
  for line in lines:
      if "received sigusr1; restarting" in line.lower():
          ts = _parse_ts_utc(line)
          if not ts:
              continue
          restarts.append((ts, "<user configuration change> (SIGUSR1)"))
      elif "received sigterm; shutting down" in line.lower():
          (the same with "<system/service restart> (SIGTERM)")
      elif "uncaught exception" in line.lower() or "max reconnect attempts" in line.lower():
          (the same with "<abnormal exit/crash>")
  \<close>
\<close>

definition restart_signal :: "runtime \<Rightarrow> pystr \<Rightarrow> (int \<times> pystr) option" where
  "restart_signal rt line =
     (if isin (ascii ''received sigusr1; restarting'') (lower line) then
        map_option (\<lambda>ts. (ts, REASON_SIGUSR1)) (parse_ts_utc rt line)
      else if isin (ascii ''received sigterm; shutting down'') (lower line) then
        map_option (\<lambda>ts. (ts, REASON_SIGTERM)) (parse_ts_utc rt line)
      else if isin (ascii ''uncaught exception'') (lower line) \<or>
              isin (ascii ''max reconnect attempts'') (lower line) then
        map_option (\<lambda>ts. (ts, REASON_CRASH)) (parse_ts_utc rt line)
      else None)"

definition collect_restarts :: "runtime \<Rightarrow> pystr list \<Rightarrow> (int \<times> pystr) list" where
  "collect_restarts rt lines = List.map_filter (restart_signal rt) lines"

text \<open>
  \<^verbatim>\<open>
  # Merge near-duplicates (within 90s).
  restarts.sort(key=lambda x: x[0], reverse=True)
  merged: list[tuple[dt.datetime, str]] = []
  for ts, reason in restarts:
      if merged and abs((merged[-1][0] - ts).total_seconds()) <= 90:
          # Keep the "more specific" reason if present.
          if "<abnormal>" in reason:
              merged[-1] = (merged[-1][0], reason)
          continue
      merged.append((ts, reason))
  \<close>
  \<open>list.sort\<close> is stable, and with \<open>reverse=True\<close> elements with equal keys keep their
  original order: the list is reversed, sorted and reversed again. \<open>total_seconds()\<close> is
  the difference in microseconds divided by \<open>10^6\<close>, so the test is on microseconds.
\<close>

definition sort_desc :: "(int \<times> pystr) list \<Rightarrow> (int \<times> pystr) list" where
  "sort_desc restarts = rev (sort_key fst (rev restarts))"

fun merge_loop :: "(int \<times> pystr) list \<Rightarrow> (int \<times> pystr) list \<Rightarrow> (int \<times> pystr) list" where
  "merge_loop merged [] = merged"
| "merge_loop merged ((ts, reason) # restarts) =
     (if merged \<noteq> [] \<and> \<bar>fst (last merged) - ts\<bar> \<le> 90000000 then
        (if isin CRASH_MARK reason
         then merge_loop (butlast merged @ [(fst (last merged), reason)]) restarts
         else merge_loop merged restarts)
      else merge_loop (merged @ [(ts, reason)]) restarts)"

definition merge_restarts :: "(int \<times> pystr) list \<Rightarrow> (int \<times> pystr) list" where
  "merge_restarts restarts = merge_loop [] (sort_desc restarts)"

text \<open>
  \<^verbatim>\<open>
  # Attribute watchdog restarts (within 2 minutes) if we have evidence.
  out: list[dict[str, str]] = []
  for ts, reason in merged:
      for wts in wd_restart_times:
          if abs((wts - ts).total_seconds()) <= 120:
              reason = "Watchdog <self-heal triggered>"
              break
      out.append({"timestamp": _fmt_local(ts, tz), "reason": reason})
  return out
  \<close>
\<close>

definition near_watchdog :: "int list \<Rightarrow> int \<Rightarrow> bool" where
  "near_watchdog wd ts = list_ex (\<lambda>wts. \<bar>wts - ts\<bar> \<le> 120000000) wd"

text \<open>
  The loop over the merged records: the reason is re-labelled, then \<open>_fmt_local\<close> renders
  the timestamp; when it raises, the function raises and returns no list.
\<close>

fun attribute_watchdog :: "runtime \<Rightarrow> int list \<Rightarrow> (int \<times> pystr) list \<Rightarrow> error + (pystr \<times> pystr) list" where
  "attribute_watchdog rt wd [] = Inr []"
| "attribute_watchdog rt wd ((ts, reason) # merged) =
     (let reason' = (if near_watchdog wd ts then REASON_WATCHDOG else reason) in
      case fmt_local rt ts of
        Inl e \<Rightarrow> Inl e
      | Inr ts_local \<Rightarrow>
          (case attribute_watchdog rt wd merged of
             Inl e \<Rightarrow> Inl e
           | Inr out \<Rightarrow> Inr ((ts_local, reason') # out)))"

definition analyze_restarts ::
  "runtime \<Rightarrow> pystr list \<Rightarrow> watchdog_event list \<Rightarrow> error + (pystr \<times> pystr) list" where
  "analyze_restarts rt lines watchdog_events =
     attribute_watchdog rt (wd_restart_times rt watchdog_events)
       (merge_restarts (collect_restarts rt lines))"

section \<open>Notions used to state the properties\<close>





text \<open>
  The duration grammar \<open>(\d+h)?(\d+m)?(\d+s)?\<close> of the specification: a string is the
  concatenation of three optional components, each a non-empty run of decimal digits
  followed by its unit letter, in the order hours, minutes, seconds. \<open>hms_string h m s\<close>
  is the string with the digit runs \<open>h\<close>, \<open>m\<close>, \<open>s\<close> (\<open>None\<close> for an absent component),
  \<open>digits_ok\<close> says that a component present is a non-empty run of digits,
  \<open>over_int_limit\<close> that its run of digits is longer than \<open>int\<close> converts, and
  \<open>hms_seconds\<close> is the duration the string denotes, in seconds.
\<close>

definition component :: "pystr option \<Rightarrow> nat \<Rightarrow> pystr" where
  "component x u = (case x of None \<Rightarrow> [] | Some ds \<Rightarrow> ds @ [u])"

definition hms_string :: "pystr option \<Rightarrow> pystr option \<Rightarrow> pystr option \<Rightarrow> pystr" where
  "hms_string h m s = component h 104 @ component m 109 @ component s 115"

definition digits_ok :: "runtime \<Rightarrow> pystr option \<Rightarrow> bool" where
  "digits_ok rt x = (case x of None \<Rightarrow> True | Some ds \<Rightarrow> ds \<noteq> [] \<and> list_all (isdecimal rt) ds)"

definition over_int_limit :: "runtime \<Rightarrow> pystr option \<Rightarrow> bool" where
  "over_int_limit rt x = (case x of None \<Rightarrow> False | Some ds \<Rightarrow> int_refused rt ds)"

definition component_value :: "runtime \<Rightarrow> pystr option \<Rightarrow> int" where
  "component_value rt x = (case x of None \<Rightarrow> 0 | Some ds \<Rightarrow> int_of_digits rt ds)"

definition hms_seconds :: "runtime \<Rightarrow> pystr option \<Rightarrow> pystr option \<Rightarrow> pystr option \<Rightarrow> int" where
  "hms_seconds rt h m s =
     component_value rt h * 3600 + component_value rt m * 60 + component_value rt s"

text \<open>Reading one component off the front of a string: the longest run of digits, when
  it is not empty and the unit letter follows it.\<close>

definition take_unit :: "(nat \<Rightarrow> bool) \<Rightarrow> nat \<Rightarrow> pystr \<Rightarrow> (pystr \<times> pystr) option" where
  "take_unit d u w =
     (if takeWhile d w \<noteq> [] \<and> (case dropWhile d w of [] \<Rightarrow> False | c # _ \<Rightarrow> c = u)
      then Some (takeWhile d w, tl (dropWhile d w)) else None)"


text \<open>No row of \<open>st\<close> is dropped or downgraded in \<open>st'\<close>: every model id that has a row
  in \<open>st\<close> has one in \<open>st'\<close>, of at least the same severity.\<close>

definition never_downgraded :: "state \<Rightarrow> state \<Rightarrow> bool" where
  "never_downgraded st st' =
     (\<forall>mid r. map_of (matrix st) mid = Some r \<longrightarrow>
        (\<exists>r'. map_of (matrix st') mid = Some r' \<and> severity (Status r) \<le> severity (Status r')))"

section \<open>Example inputs\<close>

text \<open>A catalog of three models under two providers, and states reached from it.\<close>

definition EX_MID :: pystr where
  "EX_MID = ascii ''acme/gpt-x''"

definition EX_MODELS :: "ModelRef list" where
  "EX_MODELS =
     [\<lparr>model_id = ascii ''acme/gpt-x'', provider = ascii ''acme'', model = ascii ''gpt-x''\<rparr>,
      \<lparr>model_id = ascii ''acme/gpt-y'', provider = ascii ''acme'', model = ascii ''gpt-y''\<rparr>,
      \<lparr>model_id = ascii ''other/m'', provider = ascii ''other'', model = ascii ''m''\<rparr>]"

text \<open>The row of \<open>acme/gpt-x\<close> after a missing-credential incident: red.\<close>

definition EX_NO_KEY :: state where
  "EX_NO_KEY = apply_status (initial_state EX_MODELS) EX_MID STATUS_NO_KEY DIAG_NO_KEY None"

text \<open>
  Two incidents evaluated at \<open>now_utc\<close> = 10 hours after the epoch: a timeout seen at
  00:00:00 (sticky for 30 minutes) and a cooldown seen at 00:01:00 (sticky for 240
  minutes); both windows have passed.
\<close>

definition EX_STALE1 :: state where
  "EX_STALE1 =
     apply_incident 36000000000 (Some 0) (ascii ''08:00'') (initial_state EX_MODELS) EX_MID
       (ascii ''timeout'') STATUS_TIMEOUT DIAG_TIMEOUT (Some 1800000000)
       (Some (model_event (ascii ''08:00'') EX_MID (ascii ''timeout'')))"

definition EX_STALE2 :: state where
  "EX_STALE2 =
     apply_incident 36000000000 (Some 60000000) (ascii ''08:01'') EX_STALE1 EX_MID
       (ascii ''cooldown'') STATUS_COOLDOWN DIAG_COOLDOWN (Some 14460000000)
       (Some (model_event (ascii ''08:01'') EX_MID (ascii ''cooldown'')))"

text \<open>
  A runtime for the examples: ASCII only, \<open>fromisoformat\<close> on the timestamps the examples
  use, the time zone UTC+8 (Asia/Shanghai, the program's default; the local time must
  lie within the years 1 to 9999) and the default limit of 4300 digits for \<open>int\<close>.
\<close>

definition two_digits :: "nat \<Rightarrow> pystr" where
  "two_digits n = [48 + n div 10, 48 + n mod 10]"

definition hhmm_utc8 :: "int \<Rightarrow> pystr" where
  "hhmm_utc8 t =
     two_digits (nat (((t div 1000000 + 28800) div 3600) mod 24)) @ ascii '':'' @
     two_digits (nat (((t div 1000000 + 28800) div 60) mod 60))"

definition EX_RT :: runtime where
  "EX_RT =
     \<lparr>isalnum_u = (\<lambda>c. False), decimal_u = (\<lambda>c. None),
      fromisoformat = map_of
        [(ascii ''2026-02-07T02:28:57.903+00:00'', 1770431337903000),
         (ascii ''2026-02-07T02:29:00+00:00'', 1770431340000000),
         (ascii ''2026-02-07T02:29:27+00:00'', 1770431367000000),
         (ascii ''2026-02-07T02:32:17+00:00'', 1770431537000000)],
      fmt_local = (\<lambda>t. if MIN_DATETIME \<le> t + 28800000000 \<and> t + 28800000000 \<le> MAX_DATETIME
                       then Inr (hhmm_utc8 t) else Inl OverflowError),
      max_str_digits = 4300\<rparr>"



definition EX_RESTART_LINES :: "pystr list" where
  "EX_RESTART_LINES =
     [ascii ''2026-02-07T02:28:57.903Z [gateway] Uncaught exception: boom'',
      ascii ''2026-02-07T02:29:27Z [gateway] received SIGTERM; shutting down'',
      ascii ''2026-02-07T02:32:17Z [gateway] received SIGUSR1; restarting'']"

definition EX_WATCHDOG :: "watchdog_event list" where
  "EX_WATCHDOG =
     [\<lparr>ev_type = Some (ascii ''health_check''), ev_timestamp = ascii ''2026-02-07T02:32:17Z''\<rparr>,
      \<lparr>ev_type = Some (ascii ''gateway_restart''), ev_timestamp = ascii ''2026-02-07T02:29:00Z''\<rparr>]"

text \<open>
  Scenarios A and B of the specification, and a rate-limit line without a reset clause,
  with the timestamp 2026-02-07T02:28:57.903Z.
\<close>

definition EX_T :: int where
  "EX_T = 1770431337903000"

definition EX_LINE_A :: pystr where
  "EX_LINE_A = ascii ''2026-02-07T02:28:57.903Z provider=acme model=gpt-x 429 reset after 45m''"

definition EX_LINE_B :: pystr where
  "EX_LINE_B = ascii ''2026-02-07T02:28:57.903Z provider=acme model=gpt-x 429 reset after 3h''"

definition EX_LINE_PLAIN :: pystr where
  "EX_LINE_PLAIN = ascii ''2026-02-07T02:28:57.903Z provider=acme model=gpt-x rate_limit hit''"

text \<open>Scenario B's line with the word \<open>cooldown\<close> in it.\<close>

definition EX_LINE_COOL :: pystr where
  "EX_LINE_COOL =
     ascii ''2026-02-07T02:28:57.903Z provider=acme model=gpt-x 429 cooldown, reset after 3h''"

text \<open>
  Scenario C of the specification, a missing-credential line for the provider \<open>acme\<close>;
  and an aggregate-failure line whose only segment reports the same missing credential.
\<close>

definition EX_LINE_C :: pystr where
  "EX_LINE_C =
     ascii ''2026-02-07T02:28:57.903Z No API key found for provider '' @ [34] @ ascii ''acme'' @ [34]"

definition EX_BODY :: pystr where
  "EX_BODY = ascii ''acme/gpt-x: No API key found for provider '' @ [34] @ ascii ''acme'' @ [34]"

definition EX_LINE_AGG :: pystr where
  "EX_LINE_AGG = ascii ''2026-02-07T02:28:57.903Z All models failed (1): '' @ EX_BODY"

text \<open>
  The pass over Scenario B then Scenario A of the specification, evaluated one minute
  after the timestamp of the lines: the state after the first line, and after both.
\<close>

definition EX_AFTER_B :: state where
  "EX_AFTER_B =
     apply_incident (EX_T + 60000000) (Some EX_T) (ascii ''10:28'') (initial_state EX_MODELS) EX_MID
       (ascii ''429/rate_limit'') STATUS_429_QUOTA
       (strip (DIAG_429_QUOTA @ recovery_text (Some (10800000000, ascii ''3h''))))
       (Some (EX_T + 10800000000))
       (Some (strip (model_event (ascii ''10:28'') EX_MID
          (ascii ''429/rate_limit '' @ recovery_text (Some (10800000000, ascii ''3h''))))))"

definition EX_AFTER_BA :: state where
  "EX_AFTER_BA =
     apply_incident (EX_T + 60000000) (Some EX_T) (ascii ''10:28'') EX_AFTER_B EX_MID
       (ascii ''429/rate_limit'') STATUS_429
       (strip (DIAG_429_SHORT @ recovery_text (Some (2700000000, ascii ''45m''))))
       (Some (EX_T + 2700000000))
       (Some (strip (model_event (ascii ''10:28'') EX_MID
          (ascii ''429/rate_limit '' @ recovery_text (Some (2700000000, ascii ''45m''))))))"


text \<open>The severities of the rows of a result, in the order of the matrix.\<close>

definition severities :: "error + state \<Rightarrow> (pystr \<times> nat) list option" where
  "severities res =
     (case res of
        Inl e \<Rightarrow> None
      | Inr st \<Rightarrow> Some (map (\<lambda>kr. (fst kr, severity (Status (snd kr)))) (matrix st)))"

section \<open>Evaluating the examples\<close>


lemma EX_RT_simps:
  "isdecimal EX_RT c = (48 \<le> c \<and> c \<le> 57)"
  "isword EX_RT c = (c = 95 \<or> (48 \<le> c \<and> c \<le> 57) \<or> (65 \<le> c \<and> c \<le> 90) \<or> (97 \<le> c \<and> c \<le> 122))"
  "fmt_local EX_RT t =
     (if MIN_DATETIME \<le> t + 28800000000 \<and> t + 28800000000 \<le> MAX_DATETIME
      then Inr (hhmm_utc8 t) else Inl OverflowError)"
  "digit_value EX_RT c = (if 48 \<le> c \<and> c \<le> 57 then c - 48 else 0)"
  "max_str_digits EX_RT = 4300"
  by (simp_all add: EX_RT_def isdecimal_def isword_def digit_value_def)

lemma EX_fmt_local:
  "0 \<le> t \<Longrightarrow> t \<le> 4102444800000000 \<Longrightarrow> fmt_local EX_RT t = Inr (hhmm_utc8 t)"
  by (simp add: EX_RT_simps MIN_DATETIME_def MAX_DATETIME_def)

lemma EX_RT_fromisoformat:
  "fromisoformat EX_RT (ascii ''2026-02-07T02:28:57.903+00:00'') = Some 1770431337903000"
  "fromisoformat EX_RT (ascii ''2026-02-07T02:29:00+00:00'') = Some 1770431340000000"
  "fromisoformat EX_RT (ascii ''2026-02-07T02:29:27+00:00'') = Some 1770431367000000"
  "fromisoformat EX_RT (ascii ''2026-02-07T02:32:17+00:00'') = Some 1770431537000000"
  by (simp_all add: EX_RT_def ascii_def)

lemmas string_defs = strip_def lstrip_def rstrip_def isspace_def lower_def lower_cp_def ascii_def

lemmas ts_defs = parse_ts_utc_def search_def TS_RE_def digits2_def digits4_def group_str_def
  group_def replace_Z_def

lemma EX_parse_ts:
  "parse_ts_utc EX_RT (ascii ''2026-02-07T02:28:57.903Z [gateway] Uncaught exception: boom'') = Some 1770431337903000"
  "parse_ts_utc EX_RT (ascii ''2026-02-07T02:29:27Z [gateway] received SIGTERM; shutting down'') = Some 1770431367000000"
  "parse_ts_utc EX_RT (ascii ''2026-02-07T02:32:17Z [gateway] received SIGUSR1; restarting'') = Some 1770431537000000"
  using EX_RT_fromisoformat
  by (simp_all add: ts_defs EX_RT_simps ascii_def)

lemma EX_restart_signal:
  "restart_signal EX_RT (ascii ''2026-02-07T02:28:57.903Z [gateway] Uncaught exception: boom'') = Some (1770431337903000, REASON_CRASH)"
  "restart_signal EX_RT (ascii ''2026-02-07T02:29:27Z [gateway] received SIGTERM; shutting down'') = Some (1770431367000000, REASON_SIGTERM)"
  "restart_signal EX_RT (ascii ''2026-02-07T02:32:17Z [gateway] received SIGUSR1; restarting'') = Some (1770431537000000, REASON_SIGUSR1)"
  unfolding restart_signal_def EX_parse_ts
  by (simp_all add: ascii_def lower_def lower_cp_def startswith_def)

lemma EX_collect:
  "collect_restarts EX_RT EX_RESTART_LINES =
     [(1770431337903000, REASON_CRASH), (1770431367000000, REASON_SIGTERM),
      (1770431537000000, REASON_SIGUSR1)]"
  by (simp add: collect_restarts_def EX_RESTART_LINES_def map_filter_simps EX_restart_signal)

lemmas regex_eval_defs = search_def ci_eq_def ascii_lower_def dot_def group_str_def group_def
  word_dash_def word_dot_dash_def model_chars_def
  LANE_AGENT_RE_def AGENT_DIR_RE_def ALL_MODELS_FAILED_BODY_RE_def PROVIDER_MODEL_RE_def
  MODEL_QUOTED_RE_def NO_API_KEY_RE_def COOLDOWN_PROVIDER_RE_def UNKNOWN_MODEL_RE_def
  MODEL_NOT_ALLOWED_RE_def CAPACITY_EXHAUSTED_RE_def CONTEXT_LIMIT_RE_def

section \<open>Properties of the severity order\<close>

lemma severity_worse_status: "severity (worse_status a b) = max (severity a) (severity b)"
  by (simp add: worse_status_def max_def)

lemma severity_STATUS_429: "severity STATUS_429 = 2"
  by (simp add: severity_def glyph_def lstrip_def STATUS_429_def YELLOW_def RED_def GREEN_def
      order_get_def isspace_def)

lemma severity_STATUS_TIMEOUT: "severity STATUS_TIMEOUT = 2"
  by (simp add: severity_def glyph_def lstrip_def STATUS_TIMEOUT_def YELLOW_def RED_def GREEN_def
      order_get_def isspace_def)

lemma STATUS_429_neq_TIMEOUT: "STATUS_429 \<noteq> STATUS_TIMEOUT"
  by (simp add: STATUS_429_def STATUS_TIMEOUT_def YELLOW_def ascii_def)

text \<open>
  Claim C6, as stated: \<open>worse\<close> is idempotent, commutative and associative over status
  strings. Commutativity fails on strings: on a tie of severities the FIRST argument is
  returned, so two different yellow statuses are combined to whichever came first.
\<close>

theorem C6_commutative_counterexample:
  "worse_status STATUS_429 STATUS_TIMEOUT \<noteq> worse_status STATUS_TIMEOUT STATUS_429"
  by (simp add: worse_status_def severity_STATUS_429 severity_STATUS_TIMEOUT
      STATUS_429_neq_TIMEOUT)

text \<open>
  Claim C6, amended: \<open>worse\<close> is idempotent and associative over status strings; it is
  commutative in the severity of its result (which is the maximum of the two severities),
  and on the strings themselves it commutes exactly when the two strings are equal or
  their severities differ (on a tie the first argument wins).
\<close>

theorem C6_worse_status_algebra:
  "worse_status a a = a \<and>
   worse_status (worse_status a b) c = worse_status a (worse_status b c) \<and>
   severity (worse_status a b) = severity (worse_status b a) \<and>
   severity (worse_status a b) = max (severity a) (severity b) \<and>
   (worse_status a b = worse_status b a \<longleftrightarrow> (a = b \<or> severity a \<noteq> severity b)) \<and>
   (severity a = severity b \<longrightarrow> worse_status a b = a)"
  by (auto simp add: worse_status_def max_def)

theorem C6_worse_status_algebra_witness:
  "worse_status STATUS_429 STATUS_429 = STATUS_429 \<and>
   severity (worse_status STATUS_429 STATUS_TIMEOUT) = 2 \<and>
   severity STATUS_429 = severity STATUS_TIMEOUT \<and>
   worse_status STATUS_429 STATUS_TIMEOUT = STATUS_429 \<and>
   worse_status STATUS_TIMEOUT STATUS_429 = STATUS_TIMEOUT"
  using C6_worse_status_algebra [of STATUS_429 STATUS_429 STATUS_429]
    C6_worse_status_algebra [of STATUS_429 STATUS_TIMEOUT STATUS_429]
    C6_worse_status_algebra [of STATUS_TIMEOUT STATUS_429 STATUS_429]
  by (simp add: severity_STATUS_429 severity_STATUS_TIMEOUT)

section \<open>Properties of the matrix update\<close>

lemma glyph_green_iff: "glyph s = GREEN \<longleftrightarrow> severity s = 1"
  by (simp add: severity_def order_get_def RED_def YELLOW_def GREEN_def)

lemma map_of_update: "map_of (AList.update k v al) k' = (if k' = k then Some v else map_of al k')"
  by (simp add: update_conv')

lemma matrix_apply_status:
  "map_of (matrix (apply_status st mid status diagnosis event)) mid' =
     (if mid' = mid then
        Some ((current_row st mid)\<lparr>Status := worse_status (Status (current_row st mid)) status,
             Diagnosis := (if diagnosis \<noteq> [] \<and>
                 (startswith (Diagnosis (current_row st mid)) DIAG_GENERIC_PREFIX \<or>
                  glyph (worse_status (Status (current_row st mid)) status) \<noteq> GREEN)
               then diagnosis else Diagnosis (current_row st mid))\<rparr>)
      else map_of (matrix st) mid')"
  by (simp add: apply_status_def Let_def map_of_update)

lemma matrix_record_last: "matrix (record_last ts st mid kind) = matrix st"
  by (simp add: record_last_def split: option.splits)

lemma default_row_green: "glyph (Status (default_row mid)) = GREEN"
  by (simp add: default_row_def new_row_def STATUS_HEALTHY_def glyph_def lstrip_def isspace_def
      GREEN_def)

lemma severity_STATUS_HEALTHY: "severity STATUS_HEALTHY = 1"
  using default_row_green [of "[]"]
  by (simp add: glyph_green_iff default_row_def new_row_def)

lemma matrix_stale_incident:
  "map_of (matrix (stale_incident ts_local st mid kind event)) mid' =
     (if mid' = mid then
        Some ((current_row st mid)\<lparr>Diagnosis :=
           (if glyph (Status (current_row st mid)) = GREEN then breadcrumb ts_local kind
            else Diagnosis (current_row st mid))\<rparr>)
      else map_of (matrix st) mid')"
proof (cases "map_of (matrix st) mid")
  case None
  then show ?thesis
    by (simp add: stale_incident_def Let_def matrix_apply_status map_of_update current_row_def
        default_row_green worse_status_def severity_STATUS_HEALTHY glyph_green_iff
        default_row_def new_row_def)
next
  case (Some r)
  then show ?thesis
    by (simp add: stale_incident_def Let_def map_of_update current_row_def)
qed

lemmas example_defs =
  EX_MID_def EX_MODELS_def EX_NO_KEY_def EX_STALE1_def EX_STALE2_def initial_state_def

lemmas literal_defs =
  STATUS_HEALTHY_def DIAG_DEFAULT_def DIAG_GENERIC_PREFIX_def BREADCRUMB_HEAD_def
  BREADCRUMB_TAIL_def STATUS_COOLDOWN_def DIAG_COOLDOWN_def DIAG_SEG_COOLDOWN_def STATUS_429_def
  DIAG_429_SHORT_def STATUS_429_QUOTA_def DIAG_429_QUOTA_def DIAG_429_DEFAULT_def
  STATUS_TIMEOUT_def DIAG_TIMEOUT_def STATUS_CONTEXT_def DIAG_CONTEXT_def STATUS_NO_KEY_def
  DIAG_NO_KEY_def DIAG_PROVIDER_COOLDOWN_def STATUS_BAD_MODEL_def DIAG_BAD_MODEL_def
  RECOVERY_HEAD_def RECOVERY_TAIL_def ascii_def

lemmas severity_defs =
  worse_status_def severity_def glyph_def lstrip_def isspace_def order_get_def RED_def
  YELLOW_def GREEN_def

lemma current_row_EX_NO_KEY:
  "current_row EX_NO_KEY EX_MID =
     \<lparr>Provider = ascii ''acme'', Model = ascii ''gpt-x'', Status = STATUS_NO_KEY,
      Diagnosis = DIAG_NO_KEY\<rparr>"
  by (simp add: current_row_def example_defs matrix_apply_status map_of_update literal_defs
      startswith_def severity_defs)

text \<open>
  Claim C2, as stated: when an active incident is applied, the row keeps the worse
  severity, and the incoming diagnosis replaces the stored one exactly when the incoming
  severity is strictly worse or the stored diagnosis is still the generic default; a
  non-generic diagnosis is kept when the incoming severity is not worse. The last part
  fails: the row of \<open>acme/gpt-x\<close> is red with the missing-credential diagnosis, a yellow
  timeout is applied, and the diagnosis becomes the timeout's although the severity
  stays red.
\<close>

theorem C2_diagnosis_kept_counterexample:
  "map_option Diagnosis (map_of (matrix EX_NO_KEY) EX_MID) = Some DIAG_NO_KEY \<and>
   \<not> startswith DIAG_NO_KEY DIAG_GENERIC_PREFIX \<and>
   severity STATUS_TIMEOUT < severity STATUS_NO_KEY \<and>
   map_option Diagnosis
     (map_of (matrix (apply_status EX_NO_KEY EX_MID STATUS_TIMEOUT DIAG_TIMEOUT None)) EX_MID) =
     Some DIAG_TIMEOUT \<and>
   DIAG_TIMEOUT \<noteq> DIAG_NO_KEY"
  by (simp add: example_defs matrix_apply_status map_of_update literal_defs startswith_def
      severity_defs current_row_def)

text \<open>
  Claim C2, amended: when an incident is applied to a model's row (\<open>apply\<close>), the row keeps
  the worse of the current and the incoming status (its severity is the maximum of the
  two; on a tie the current status text stays), and the incoming diagnosis, when it is
  not empty, replaces the stored diagnosis exactly when the stored diagnosis starts with
  the generic default prefix or the resulting severity is not green; otherwise the
  stored diagnosis is kept. Provider, model and every other row are unchanged.
\<close>

theorem C2_apply_status:
  "\<exists>r'. map_of (matrix (apply_status st mid status diagnosis event)) mid = Some r' \<and>
     Provider r' = Provider (current_row st mid) \<and> Model r' = Model (current_row st mid) \<and>
     Status r' = worse_status (Status (current_row st mid)) status \<and>
     severity (Status r') = max (severity (Status (current_row st mid))) (severity status) \<and>
     Diagnosis r' =
       (if diagnosis \<noteq> [] \<and>
           (startswith (Diagnosis (current_row st mid)) DIAG_GENERIC_PREFIX \<or>
            max (severity (Status (current_row st mid))) (severity status) \<noteq> 1)
        then diagnosis else Diagnosis (current_row st mid)) \<and>
     (\<forall>mid'. mid' \<noteq> mid \<longrightarrow>
        map_of (matrix (apply_status st mid status diagnosis event)) mid' = map_of (matrix st) mid')"
  by (simp add: matrix_apply_status glyph_green_iff severity_worse_status)

theorem C2_apply_status_witness:
  "map_option Status
     (map_of (matrix (apply_status EX_NO_KEY EX_MID STATUS_TIMEOUT DIAG_TIMEOUT None)) EX_MID) =
     Some STATUS_NO_KEY \<and>
   map_option Diagnosis
     (map_of (matrix (apply_status EX_NO_KEY EX_MID STATUS_TIMEOUT DIAG_TIMEOUT None)) EX_MID) =
     Some DIAG_TIMEOUT \<and>
   ascii ''other/m'' \<noteq> EX_MID \<and>
   map_of (matrix (apply_status EX_NO_KEY EX_MID STATUS_TIMEOUT DIAG_TIMEOUT None)) (ascii ''other/m'') =
     map_of (matrix EX_NO_KEY) (ascii ''other/m'')"
proof -
  have ne: "ascii ''other/m'' \<noteq> EX_MID"
    by (simp add: EX_MID_def ascii_def)
  have sev: "severity STATUS_NO_KEY = 3" "severity STATUS_TIMEOUT = 2"
    by (simp_all add: literal_defs severity_defs)
  have dg: "DIAG_TIMEOUT \<noteq> []"
    by (simp add: literal_defs)
  from C2_apply_status [of EX_NO_KEY EX_MID STATUS_TIMEOUT DIAG_TIMEOUT None] ne sev dg
  show ?thesis
    by (auto simp add: current_row_EX_NO_KEY worse_status_def)
qed

text \<open>
  Claim C1, as stated: an incident is active iff its timestamp parsed and the generation
  instant is before its sticky-until instant; when it is inactive, severity and
  diagnosis are left unchanged unless the row still carries the default generic
  diagnosis, in which case only the diagnosis becomes the breadcrumb. The code tests the
  status glyph, not the diagnosis: a green row that already carries the breadcrumb of an
  earlier stale incident (not the default diagnosis) gets its diagnosis overwritten by
  the next stale incident. Here a timeout and then a cooldown, both outside their
  windows, reach \<open>acme/gpt-x\<close>.
\<close>

theorem C1_stale_overwrite_counterexample:
  "\<not> is_active 36000000000 (Some 60000000) (Some 14460000000) \<and>
   map_option Diagnosis (map_of (matrix EX_STALE1) EX_MID) =
     Some (breadcrumb (ascii ''08:00'') (ascii ''timeout'')) \<and>
   breadcrumb (ascii ''08:00'') (ascii ''timeout'') \<noteq> DIAG_DEFAULT \<and>
   \<not> startswith (breadcrumb (ascii ''08:00'') (ascii ''timeout'')) DIAG_GENERIC_PREFIX \<and>
   map_option Diagnosis (map_of (matrix EX_STALE2) EX_MID) =
     Some (breadcrumb (ascii ''08:01'') (ascii ''cooldown'')) \<and>
   breadcrumb (ascii ''08:01'') (ascii ''cooldown'') \<noteq> breadcrumb (ascii ''08:00'') (ascii ''timeout'')"
  by (simp add: example_defs apply_incident_def is_active_def stale_incident_def record_last_def
      append_event_def breadcrumb_def model_event_def map_of_update literal_defs startswith_def
      glyph_def lstrip_def isspace_def GREEN_def)

text \<open>
  Claim C1, amended: an incident is active iff its line's timestamp parsed and the
  generation instant is strictly before its sticky-until instant; an active incident is
  applied to the row as \<open>apply\<close> does. When it is inactive, the row (created healthy if
  missing) keeps its status, provider and model, and its diagnosis is overwritten with
  the breadcrumb (time and kind of the incident) exactly when the row's status is green,
  whatever diagnosis it carries; a row that is not green keeps its diagnosis. No other
  row changes.
\<close>

theorem C1_apply_incident:
  "(is_active now_utc ts sticky_until \<longleftrightarrow>
      (\<exists>t u. ts = Some t \<and> sticky_until = Some u \<and> now_utc < u)) \<and>
   (is_active now_utc ts sticky_until \<longrightarrow>
      matrix (apply_incident now_utc ts ts_local st mid kind base_status diagnosis sticky_until event) =
      matrix (apply_status st mid base_status diagnosis event)) \<and>
   (\<not> is_active now_utc ts sticky_until \<longrightarrow>
      (\<exists>r'. map_of (matrix (apply_incident now_utc ts ts_local st mid kind base_status diagnosis
                sticky_until event)) mid = Some r' \<and>
         Provider r' = Provider (current_row st mid) \<and> Model r' = Model (current_row st mid) \<and>
         Status r' = Status (current_row st mid) \<and>
         Diagnosis r' =
           (if severity (Status (current_row st mid)) = 1 then breadcrumb ts_local kind
            else Diagnosis (current_row st mid))) \<and>
      (\<forall>mid'. mid' \<noteq> mid \<longrightarrow>
         map_of (matrix (apply_incident now_utc ts ts_local st mid kind base_status diagnosis
            sticky_until event)) mid' = map_of (matrix st) mid'))"
proof (intro conjI impI)
  show "is_active now_utc ts sticky_until \<longleftrightarrow>
      (\<exists>t u. ts = Some t \<and> sticky_until = Some u \<and> now_utc < u)"
    by (simp add: is_active_def split: option.splits)
qed (simp_all add: apply_incident_def matrix_record_last matrix_stale_incident glyph_green_iff)

text \<open>
  Scenario E of the specification: a cooldown seen 10 hours before the generation
  instant, with the 240-minute window, is not active; the row stays green and carries
  the breadcrumb. Evaluated at the instant of the incident itself, it is active.
\<close>

theorem C1_apply_incident_witness:
  "\<not> is_active 36000000000 (Some 0) (Some 14400000000) \<and>
   map_option Status
     (map_of (matrix (apply_incident 36000000000 (Some 0) (ascii ''08:00'') (initial_state EX_MODELS)
        EX_MID (ascii ''cooldown'') STATUS_COOLDOWN DIAG_COOLDOWN (Some 14400000000) None)) EX_MID) =
     Some STATUS_HEALTHY \<and>
   map_option Diagnosis
     (map_of (matrix (apply_incident 36000000000 (Some 0) (ascii ''08:00'') (initial_state EX_MODELS)
        EX_MID (ascii ''cooldown'') STATUS_COOLDOWN DIAG_COOLDOWN (Some 14400000000) None)) EX_MID) =
     Some (breadcrumb (ascii ''08:00'') (ascii ''cooldown'')) \<and>
   ascii ''other/m'' \<noteq> EX_MID \<and>
   map_of (matrix (apply_incident 36000000000 (Some 0) (ascii ''08:00'') (initial_state EX_MODELS)
        EX_MID (ascii ''cooldown'') STATUS_COOLDOWN DIAG_COOLDOWN (Some 14400000000) None))
     (ascii ''other/m'') = map_of (matrix (initial_state EX_MODELS)) (ascii ''other/m'') \<and>
   is_active 0 (Some 0) (Some 14400000000) \<and>
   matrix (apply_incident 0 (Some 0) (ascii ''08:00'') (initial_state EX_MODELS)
        EX_MID (ascii ''cooldown'') STATUS_COOLDOWN DIAG_COOLDOWN (Some 14400000000) None) =
   matrix (apply_status (initial_state EX_MODELS) EX_MID STATUS_COOLDOWN DIAG_COOLDOWN None)"
proof -
  have stale: "\<not> is_active 36000000000 (Some 0) (Some 14400000000)"
    and act: "is_active 0 (Some 0) (Some 14400000000)"
    by (simp_all add: is_active_def)
  have ne: "ascii ''other/m'' \<noteq> EX_MID"
    by (simp add: EX_MID_def ascii_def)
  have row: "current_row (initial_state EX_MODELS) EX_MID =
     \<lparr>Provider = ascii ''acme'', Model = ascii ''gpt-x'', Status = STATUS_HEALTHY,
      Diagnosis = DIAG_DEFAULT\<rparr>"
    by (simp add: current_row_def example_defs map_of_update ascii_def)
  from C1_apply_incident [of 36000000000 "Some 0" "Some 14400000000" "ascii ''08:00''"
      "initial_state EX_MODELS" EX_MID "ascii ''cooldown''" STATUS_COOLDOWN DIAG_COOLDOWN None]
    C1_apply_incident [of 0 "Some 0" "Some 14400000000" "ascii ''08:00''"
      "initial_state EX_MODELS" EX_MID "ascii ''cooldown''" STATUS_COOLDOWN DIAG_COOLDOWN None]
    stale act ne
  show ?thesis
    by (auto simp add: row severity_STATUS_HEALTHY)
qed

section \<open>Properties of the event timeline\<close>








section \<open>Properties of the restart merge\<close>

















lemma near_watchdog_iff: "near_watchdog wd ts \<longleftrightarrow> (\<exists>wts\<in>set wd. \<bar>wts - ts\<bar> \<le> 120000000)"
  by (simp add: near_watchdog_def list_ex_iff)

lemma wd_restart_times_iff:
  "wts \<in> set (wd_restart_times rt evs) \<longleftrightarrow>
     (\<exists>e\<in>set evs. ev_type e = Some (ascii ''gateway_restart'') \<and>
        fromisoformat rt (replace_Z (ev_timestamp e)) = Some wts)"
  by (induction evs) (auto simp add: wd_restart_times_def map_filter_simps split: option.splits)

lemma attribute_watchdog_Inr:
  "attribute_watchdog rt wd merged = Inr out \<Longrightarrow>
   length out = length merged \<and>
   (\<forall>i<length merged.
      fmt_local rt (fst (merged ! i)) = Inr (fst (out ! i)) \<and>
      snd (out ! i) =
        (if near_watchdog wd (fst (merged ! i)) then REASON_WATCHDOG else snd (merged ! i)))"
proof (induction merged arbitrary: out)
  case Nil
  then show ?case by simp
next
  case (Cons x merged)
  obtain ts reason where x: "x = (ts, reason)" by (cases x)
  from Cons.prems x obtain ts_local out' where
    f: "fmt_local rt ts = Inr ts_local"
    and r: "attribute_watchdog rt wd merged = Inr out'"
    and o: "out = (ts_local, if near_watchdog wd ts then REASON_WATCHDOG else reason) # out'"
    by (auto simp add: Let_def split: sum.splits)
  from Cons.IH [OF r] f o x show ?case
    by (auto simp add: nth_Cons split: nat.splits)
qed

lemma attribute_watchdog_returns:
  "(\<exists>out. attribute_watchdog rt wd merged = Inr out) \<longleftrightarrow>
   (\<forall>x\<in>set merged. \<exists>s. fmt_local rt (fst x) = Inr s)"
proof (induction merged)
  case Nil
  then show ?case by simp
next
  case (Cons x merged)
  obtain ts reason where x: "x = (ts, reason)" by (cases x)
  from Cons.IH x show ?case
    by (auto simp add: Let_def split: sum.splits)
qed


lemma crash_marks:
  "isin CRASH_MARK REASON_CRASH" "\<not> isin CRASH_MARK REASON_SIGTERM"
  "\<not> isin CRASH_MARK REASON_SIGUSR1"
  by (simp_all add: CRASH_MARK_def REASON_CRASH_def REASON_SIGTERM_def REASON_SIGUSR1_def
      ascii_def startswith_def)






text \<open>
  Claim C5: after merging, every surviving restart record whose timestamp is within 120
  seconds of the timestamp of some watchdog record of type \<open>gateway_restart\<close> is
  re-labelled with the watchdog self-heal reason, whatever reason it carried (the crash
  reason included: the pass runs over the merged list); every other record keeps its
  reason, and no record is added or dropped. The function returns its list exactly when
  the timestamp of every merged record can be rendered in the report's time zone, and
  the list it returns is then the merged list, record by record, with these reasons.
\<close>

theorem C5_watchdog_relabel:
  assumes "merged = merge_restarts (collect_restarts rt lines)"
  shows "((\<exists>out. analyze_restarts rt lines watchdog_events = Inr out) \<longleftrightarrow>
      (\<forall>x\<in>set merged. \<exists>s. fmt_local rt (fst x) = Inr s)) \<and>
    (\<forall>out. analyze_restarts rt lines watchdog_events = Inr out \<longrightarrow>
       length out = length merged \<and>
       (\<forall>i<length merged.
          fmt_local rt (fst (merged ! i)) = Inr (fst (out ! i)) \<and>
          snd (out ! i) =
            (if \<exists>e\<in>set watchdog_events. ev_type e = Some (ascii ''gateway_restart'') \<and>
                 (\<exists>wts. fromisoformat rt (replace_Z (ev_timestamp e)) = Some wts \<and>
                    \<bar>wts - fst (merged ! i)\<bar> \<le> 120000000)
             then REASON_WATCHDOG else snd (merged ! i))))"
proof -
  have near: "near_watchdog (wd_restart_times rt watchdog_events) ts \<longleftrightarrow>
      (\<exists>e\<in>set watchdog_events. ev_type e = Some (ascii ''gateway_restart'') \<and>
         (\<exists>wts. fromisoformat rt (replace_Z (ev_timestamp e)) = Some wts \<and>
            \<bar>wts - ts\<bar> \<le> 120000000))" for ts
  proof
    assume "near_watchdog (wd_restart_times rt watchdog_events) ts"
    then obtain wts where "wts \<in> set (wd_restart_times rt watchdog_events)"
      "\<bar>wts - ts\<bar> \<le> 120000000"
      unfolding near_watchdog_iff by blast
    then show "\<exists>e\<in>set watchdog_events. ev_type e = Some (ascii ''gateway_restart'') \<and>
         (\<exists>wts. fromisoformat rt (replace_Z (ev_timestamp e)) = Some wts \<and>
            \<bar>wts - ts\<bar> \<le> 120000000)"
      unfolding wd_restart_times_iff by blast
  next
    assume "\<exists>e\<in>set watchdog_events. ev_type e = Some (ascii ''gateway_restart'') \<and>
         (\<exists>wts. fromisoformat rt (replace_Z (ev_timestamp e)) = Some wts \<and>
            \<bar>wts - ts\<bar> \<le> 120000000)"
    then obtain e wts where "e \<in> set watchdog_events"
      "ev_type e = Some (ascii ''gateway_restart'')"
      "fromisoformat rt (replace_Z (ev_timestamp e)) = Some wts" "\<bar>wts - ts\<bar> \<le> 120000000"
      by blast
    then have "wts \<in> set (wd_restart_times rt watchdog_events)" "\<bar>wts - ts\<bar> \<le> 120000000"
      unfolding wd_restart_times_iff by blast+
    then show "near_watchdog (wd_restart_times rt watchdog_events) ts"
      unfolding near_watchdog_iff by blast
  qed
  have ret: "(\<exists>out. analyze_restarts rt lines watchdog_events = Inr out) \<longleftrightarrow>
      (\<forall>x\<in>set merged. \<exists>s. fmt_local rt (fst x) = Inr s)"
    unfolding analyze_restarts_def assms by (rule attribute_watchdog_returns)
  have res: "\<forall>out. analyze_restarts rt lines watchdog_events = Inr out \<longrightarrow>
       length out = length merged \<and>
       (\<forall>i<length merged.
          fmt_local rt (fst (merged ! i)) = Inr (fst (out ! i)) \<and>
          snd (out ! i) =
            (if near_watchdog (wd_restart_times rt watchdog_events) (fst (merged ! i))
             then REASON_WATCHDOG else snd (merged ! i)))"
    unfolding analyze_restarts_def assms using attribute_watchdog_Inr by blast
  from ret res show ?thesis unfolding near by (rule conjI)
qed

lemma EX_merged:
  "merge_restarts (collect_restarts EX_RT EX_RESTART_LINES) =
     [(1770431537000000, REASON_SIGUSR1), (1770431367000000, REASON_CRASH)]"
  by (simp add: EX_collect merge_restarts_def sort_desc_def crash_marks)

lemma EX_hhmm:
  "fmt_local EX_RT 1770431537000000 = Inr (ascii ''10:32'')"
  "fmt_local EX_RT 1770431367000000 = Inr (ascii ''10:29'')"
  by (simp_all add: EX_fmt_local hhmm_utc8_def two_digits_def ascii_def)

lemma list_of_two: "length xs = 2 \<Longrightarrow> xs = [xs ! 0, xs ! 1]"
  by (cases xs; cases "tl xs") auto

text \<open>
  Scenario D as log lines, with a watchdog restart 27 seconds before the record kept at
  02:29:27: the record, which carried the crash reason after the merge, is re-labelled;
  the record at 02:32:17, 197 seconds from the watchdog restart, keeps its reason.
\<close>

theorem C5_watchdog_relabel_witness:
  "merge_restarts (collect_restarts EX_RT EX_RESTART_LINES) =
     [(1770431537000000, REASON_SIGUSR1), (1770431367000000, REASON_CRASH)] \<and>
   analyze_restarts EX_RT EX_RESTART_LINES EX_WATCHDOG =
     Inr [(ascii ''10:32'', REASON_SIGUSR1), (ascii ''10:29'', REASON_WATCHDOG)]"
proof -
  have wd: "fromisoformat EX_RT (replace_Z (ascii ''2026-02-07T02:29:00Z'')) = Some 1770431340000000"
    "fromisoformat EX_RT (replace_Z (ascii ''2026-02-07T02:32:17Z'')) = Some 1770431537000000"
    using EX_RT_fromisoformat by (simp_all add: replace_Z_def ascii_def)
  have ty: "ascii ''health_check'' \<noteq> ascii ''gateway_restart''"
    by (simp add: ascii_def)
  note C5 = C5_watchdog_relabel [OF EX_merged [symmetric], of EX_WATCHDOG]
  from C5 obtain out where out: "analyze_restarts EX_RT EX_RESTART_LINES EX_WATCHDOG = Inr out"
    by (auto simp add: EX_hhmm)
  note R = conjunct2 [OF C5, rule_format, OF out]
  note idx = conjunct2 [OF R, rule_format]
  have len: "length out = 2"
    using conjunct1 [OF R] by simp
  have r0: "fmt_local EX_RT 1770431537000000 = Inr (fst (out ! 0))" "snd (out ! 0) = REASON_SIGUSR1"
    using idx [of 0] by (simp_all add: EX_WATCHDOG_def wd ty)
  have r1: "fmt_local EX_RT 1770431367000000 = Inr (fst (out ! 1))" "snd (out ! 1) = REASON_WATCHDOG"
    using idx [of 1] by (simp_all add: EX_WATCHDOG_def wd ty)
  from r0 r1 have "out ! 0 = (ascii ''10:32'', REASON_SIGUSR1)" "out ! 1 = (ascii ''10:29'', REASON_WATCHDOG)"
    by (simp_all add: EX_hhmm prod_eq_iff)
  with list_of_two [OF len] have "out = [(ascii ''10:32'', REASON_SIGUSR1), (ascii ''10:29'', REASON_WATCHDOG)]"
    by simp
  with out show ?thesis by (simp add: EX_merged)
qed
section \<open>Properties of the duration parser\<close>


lemma star_match_last:
  assumes "\<And>p' c s' g'. d c \<Longrightarrow> K (p', c # s', g') = []"
  shows "concat (map K (star_match d p w g)) =
    K (if takeWhile d w = [] then p else Some (last (takeWhile d w)), dropWhile d w, g)"
proof (induction w arbitrary: p)
  case Nil
  then show ?case by simp
next
  case (Cons c s)
  show ?case
  proof (cases "d c")
    case True
    then show ?thesis using Cons [of "Some c"] assms by simp
  next
    case False
    then show ?thesis by simp
  qed
qed

lemma length_dropWhile_take:
  "take (length w - length (dropWhile d w)) w = takeWhile d w"
proof -
  have "length w - length (dropWhile d w) = length (takeWhile d w)"
    by (metis add_diff_cancel_right' length_append takeWhile_dropWhile_id)
  then show ?thesis
    by (metis append_eq_conv_conj takeWhile_dropWhile_id)
qed

lemma matches_unit:
  assumes nd: "\<not> d u"
  shows "matches (Seq (Grp n (Plus d)) (Lit [u])) (p, w, g) =
    (case take_unit d u w of
       None \<Rightarrow> []
     | Some (ds, rest) \<Rightarrow> [(Some u, rest, (n, ds) # g)])"
proof (cases w)
  case Nil
  then show ?thesis by (simp add: take_unit_def)
next
  case (Cons c s)
  show ?thesis
  proof (cases "d c")
    case False
    with Cons show ?thesis by (simp add: take_unit_def)
  next
    case True
    define K where "K = (\<lambda>st :: mstate. matches (Lit [u])
       (case st of (p', s', g') \<Rightarrow> (p', s', (n, take (length w - length s') w) # g')))"
    have van: "K (p', c' # s', g') = []" if "d c'" for p' c' s' g'
      using that nd by (auto simp add: K_def)
    have "matches (Seq (Grp n (Plus d)) (Lit [u])) (p, w, g) =
        concat (map K (star_match d (Some c) s g))"
      using Cons True by (simp add: K_def comp_def case_prod_beta)
    also have "\<dots> = K (if takeWhile d s = [] then Some c else Some (last (takeWhile d s)),
        dropWhile d s, g)"
      by (rule star_match_last) (rule van)
    also have "\<dots> = (case take_unit d u w of
       None \<Rightarrow> []
     | Some (ds, rest) \<Rightarrow> [(Some u, rest, (n, ds) # g)])"
    proof -
      define rest where "rest = dropWhile d s"
      define pp where "pp = (if takeWhile d s = [] then Some c else Some (last (takeWhile d s)))"
      have dw: "dropWhile d w = rest" and tw: "takeWhile d w \<noteq> []"
        using Cons True by (simp_all add: rest_def)
      have tk: "take (length w - length rest) w = takeWhile d w"
        using length_dropWhile_take [of w d] dw by simp
      have K: "K (pp, rest, g) = matches (Lit [u]) (pp, rest, (n, takeWhile d w) # g)"
        by (simp add: K_def tk)
      have tu: "take_unit d u w =
          (if (case rest of [] \<Rightarrow> False | c # _ \<Rightarrow> c = u)
           then Some (takeWhile d w, tl rest) else None)"
        by (simp add: take_unit_def dw tw)
      have "K (pp, rest, g) = (case take_unit d u w of
         None \<Rightarrow> []
       | Some (ds, rest) \<Rightarrow> [(Some u, rest, (n, ds) # g)])"
        unfolding K tu by (cases rest) simp_all
      then show ?thesis by (simp add: pp_def rest_def)
    qed
    finally show ?thesis .
  qed
qed

lemma matches_opt_unit:
  assumes nd: "\<not> d u"
  shows "matches (Opt (Seq (Grp n (Plus d)) (Lit [u]))) (p, w, g) =
    (case take_unit d u w of
       None \<Rightarrow> []
     | Some (ds, rest) \<Rightarrow> [(Some u, rest, (n, ds) # g)]) @ [(p, w, g)]"
  unfolding matches.simps(6) matches_unit [of d u, OF nd] ..

lemma take_unit_Nil: "take_unit d u [] = None"
  by (simp add: take_unit_def)

lemma take_unit_digits:
  assumes "ds \<noteq> []" "list_all d ds" "\<not> d u"
  shows "take_unit d u' (ds @ u # rest) = (if u' = u then Some (ds, rest) else None)"
proof -
  have "takeWhile d (ds @ u # rest) = ds" "dropWhile d (ds @ u # rest) = u # rest"
    using assms by (simp_all add: list_all_iff takeWhile_append2 dropWhile_append2)
  with assms(1) show ?thesis by (simp add: take_unit_def)
qed

lemma take_unit_SomeD:
  "take_unit d u w = Some (ds, rest) \<Longrightarrow> w = ds @ u # rest \<and> ds \<noteq> [] \<and> list_all d ds"
proof -
  assume a: "take_unit d u w = Some (ds, rest)"
  then have ds: "ds = takeWhile d w" "ds \<noteq> []" and dw: "dropWhile d w = u # rest"
    by (auto simp add: take_unit_def split: if_splits list.splits)
  have "w = takeWhile d w @ dropWhile d w" by simp
  with ds dw have "w = ds @ u # rest" by simp
  moreover have "list_all d ds"
    using ds(1) by (auto simp add: list_all_iff dest: set_takeWhileD)
  ultimately show ?thesis using ds(2) by simp
qed


lemma not_decimal_units: "\<not> isdecimal rt 104" "\<not> isdecimal rt 109" "\<not> isdecimal rt 115"
  by (simp_all add: isdecimal_def)

lemma unit_letters: "ascii ''h'' = [104]" "ascii ''m'' = [109]" "ascii ''s'' = [115]"
  by (simp_all add: ascii_def)

lemma HMS_RE_unfold:
  "HMS_RE rt =
     Seq (Opt (Seq (Grp ''h'' (Plus (isdecimal rt))) (Lit [104])))
       (Seq (Opt (Seq (Grp ''m'' (Plus (isdecimal rt))) (Lit [109])))
          (Opt (Seq (Grp ''s'' (Plus (isdecimal rt))) (Lit [115]))))"
  by (simp add: HMS_RE_def unit_letters)

lemma matches_HMS:
  "matches (HMS_RE rt) st =
     concat (map (\<lambda>st1. concat (map
         (matches (Opt (Seq (Grp ''s'' (Plus (isdecimal rt))) (Lit [115]))))
         (matches (Opt (Seq (Grp ''m'' (Plus (isdecimal rt))) (Lit [109]))) st1)))
       (matches (Opt (Seq (Grp ''h'' (Plus (isdecimal rt))) (Lit [104]))) st))"
  unfolding HMS_RE_unfold matches.simps(7) ..

lemmas opt_unit_simps =
  matches_opt_unit [of "isdecimal rt" 104 for rt, OF not_decimal_units(1)]
  matches_opt_unit [of "isdecimal rt" 109 for rt, OF not_decimal_units(2)]
  matches_opt_unit [of "isdecimal rt" 115 for rt, OF not_decimal_units(3)]

lemma fullmatch_hms_string:
  assumes "digits_ok rt h" "digits_ok rt m" "digits_ok rt s"
  shows "\<exists>mm. fullmatch (HMS_RE rt) (hms_string h m s) = Some mm \<and>
     group mm ''h'' = h \<and> group mm ''m'' = m \<and> group mm ''s'' = s"
proof -
  have tu: "take_unit (isdecimal rt) u' (ds @ u # rest) = (if u' = u then Some (ds, rest) else None)"
    if "digits_ok rt (Some ds)" "\<not> isdecimal rt u" for u u' ds rest
    using that by (intro take_unit_digits) (simp_all add: digits_ok_def)
  note tus = tu [OF _ not_decimal_units(1)] tu [OF _ not_decimal_units(2)]
    tu [OF _ not_decimal_units(3)]
  show ?thesis
  proof (cases h)
    case hN: None
    show ?thesis
    proof (cases m)
      case mN: None
      show ?thesis
      proof (cases s)
        case None
        with hN mN show ?thesis
          by (simp add: fullmatch_def matches_HMS opt_unit_simps hms_string_def component_def
              take_unit_Nil group_def del: matches.simps)
      next
        case (Some ds)
        with hN mN assms show ?thesis
          by (simp add: fullmatch_def matches_HMS opt_unit_simps hms_string_def component_def
              take_unit_Nil group_def tus del: matches.simps)
      qed
    next
      case mS: (Some dm)
      show ?thesis
      proof (cases s)
        case None
        with hN mS assms show ?thesis
          by (simp add: fullmatch_def matches_HMS opt_unit_simps hms_string_def component_def
              take_unit_Nil group_def tus del: matches.simps)
      next
        case (Some ds)
        with hN mS assms show ?thesis
          by (simp add: fullmatch_def matches_HMS opt_unit_simps hms_string_def component_def
              take_unit_Nil group_def tus del: matches.simps)
      qed
    qed
  next
    case hS: (Some dh)
    show ?thesis
    proof (cases m)
      case mN: None
      show ?thesis
      proof (cases s)
        case None
        with hS mN assms show ?thesis
          by (simp add: fullmatch_def matches_HMS opt_unit_simps hms_string_def component_def
              take_unit_Nil group_def tus del: matches.simps)
      next
        case (Some ds)
        with hS mN assms show ?thesis
          by (simp add: fullmatch_def matches_HMS opt_unit_simps hms_string_def component_def
              take_unit_Nil group_def tus del: matches.simps)
      qed
    next
      case mS: (Some dm)
      show ?thesis
      proof (cases s)
        case None
        with hS mS assms show ?thesis
          by (simp add: fullmatch_def matches_HMS opt_unit_simps hms_string_def component_def
              take_unit_Nil group_def tus del: matches.simps)
      next
        case (Some ds)
        with hS mS assms show ?thesis
          by (simp add: fullmatch_def matches_HMS opt_unit_simps hms_string_def component_def
              take_unit_Nil group_def tus del: matches.simps)
      qed
    qed
  qed
qed

lemma opt_unit_form:
  assumes nd: "\<not> isdecimal rt u"
    and mem: "(p', w', g') \<in> set (matches (Opt (Seq (Grp n (Plus (isdecimal rt))) (Lit [u]))) (p, w, g))"
  shows "\<exists>x. digits_ok rt x \<and> w = component x u @ w'"
proof -
  show ?thesis
  proof (cases "take_unit (isdecimal rt) u w")
    case None
    with mem have "w' = w"
      unfolding matches_opt_unit [of "isdecimal rt" u, OF nd] by simp
    then have "digits_ok rt None" "w = component None u @ w'"
      by (simp_all add: digits_ok_def component_def)
    then show ?thesis by blast
  next
    case (Some a)
    obtain ds rest where a: "a = (ds, rest)" by (cases a)
    from mem Some a have "w' = rest \<or> w' = w"
      unfolding matches_opt_unit [of "isdecimal rt" u, OF nd] by auto
    then show ?thesis
    proof
      assume "w' = rest"
      with take_unit_SomeD [OF Some [unfolded a]]
      have "digits_ok rt (Some ds)" "w = component (Some ds) u @ w'"
        by (simp_all add: digits_ok_def component_def)
      then show ?thesis by blast
    next
      assume "w' = w"
      then have "digits_ok rt None" "w = component None u @ w'"
        by (simp_all add: digits_ok_def component_def)
      then show ?thesis by blast
    qed
  qed
qed

lemma fullmatch_hms_form:
  assumes "fullmatch (HMS_RE rt) w = Some mm"
  shows "\<exists>h m s. w = hms_string h m s \<and> digits_ok rt h \<and> digits_ok rt m \<and> digits_ok rt s"
proof -
  from assms have mem: "mm \<in> set (matches (HMS_RE rt) (None, w, []))"
    and full: "fst (snd mm) = []"
    by (auto simp add: fullmatch_def find_Some_iff in_set_conv_nth)
  from mem obtain st1 st2 where
    1: "st1 \<in> set (matches (Opt (Seq (Grp ''h'' (Plus (isdecimal rt))) (Lit [104]))) (None, w, []))"
    and 2: "st2 \<in> set (matches (Opt (Seq (Grp ''m'' (Plus (isdecimal rt))) (Lit [109]))) st1)"
    and 3: "mm \<in> set (matches (Opt (Seq (Grp ''s'' (Plus (isdecimal rt))) (Lit [115]))) st2)"
    unfolding matches_HMS by (auto simp del: matches.simps)
  obtain p1 w1 g1 where st1: "st1 = (p1, w1, g1)" by (cases st1)
  obtain p2 w2 g2 where st2: "st2 = (p2, w2, g2)" by (cases st2)
  obtain p3 w3 g3 where mm: "mm = (p3, w3, g3)" by (cases mm)
  from opt_unit_form [OF not_decimal_units(1) 1 [unfolded st1]]
  obtain h where h: "digits_ok rt h" "w = component h 104 @ w1" by blast
  from opt_unit_form [OF not_decimal_units(2) 2 [unfolded st1 st2]]
  obtain m where m: "digits_ok rt m" "w1 = component m 109 @ w2" by blast
  from opt_unit_form [OF not_decimal_units(3) 3 [unfolded st2 mm]]
  obtain s where s: "digits_ok rt s" "w2 = component s 115 @ w3" by blast
  from full mm have "w3 = []" by simp
  with h m s have "w = hms_string h m s" by (simp add: hms_string_def)
  with h(1) m(1) s(1) show ?thesis by blast
qed


lemma foldl_digits_nonneg:
  "0 \<le> a \<Longrightarrow> 0 \<le> foldl (\<lambda>a c. 10 * a + int (digit_value rt c)) a ds"
  by (induction ds arbitrary: a) auto

lemma int_of_digits_nonneg: "0 \<le> int_of_digits rt ds"
  by (simp add: int_of_digits_def foldl_digits_nonneg)

lemma component_value_nonneg: "0 \<le> component_value rt x"
  by (simp add: component_value_def int_of_digits_nonneg split: option.splits)

lemma timedelta_seconds:
  assumes "0 \<le> h" "0 \<le> m" "0 \<le> s"
  shows "timedelta h m s =
    (if (h * 3600 + m * 60 + s) div 86400 > 999999999 then Inl OverflowError
     else Inr ((h * 3600 + m * 60 + s) * 1000000))"
proof -
  have nn: "0 \<le> (h * 3600 + m * 60 + s) div 86400"
    using assms by (simp add: pos_imp_zdiv_nonneg_iff)
  have "((h * 3600 + m * 60 + s) * 1000000) div DAY = (h * 3600 + m * 60 + s) div 86400"
    by (simp add: DAY_def)
  with nn show ?thesis
    by (simp add: timedelta_def Let_def)
qed

lemma group_int_component:
  "digits_ok rt x \<Longrightarrow> group mm n = x \<Longrightarrow>
   group_int rt mm n =
     (if over_int_limit rt x then Inl ValueError else Inr (component_value rt x))"
  by (auto simp add: group_int_def component_value_def digits_ok_def over_int_limit_def
      py_int_def split: option.splits)

lemma hms_string_Nil_limit:
  "hms_string h m s = [] \<Longrightarrow>
   \<not> over_int_limit rt h \<and> \<not> over_int_limit rt m \<and> \<not> over_int_limit rt s"
  by (auto simp add: hms_string_def component_def over_int_limit_def split: option.splits)

lemma hms_string_Nil:
  "digits_ok rt h \<Longrightarrow> digits_ok rt m \<Longrightarrow> digits_ok rt s \<Longrightarrow> hms_string h m s = [] \<Longrightarrow>
   hms_seconds rt h m s = 0"
  by (auto simp add: hms_string_def component_def hms_seconds_def component_value_def
      split: option.splits)

lemma hms_string_last:
  "hms_string h m s \<noteq> [] \<Longrightarrow> last (hms_string h m s) \<in> {104, 109, 115}"
  by (auto simp add: hms_string_def component_def split: option.splits)

lemma parse_hms_form:
  assumes raw: "lower (strip x) = hms_string h m s"
    and ok: "digits_ok rt h" "digits_ok rt m" "digits_ok rt s"
  shows "parse_hms_duration rt x =
       (if over_int_limit rt h \<or> over_int_limit rt m \<or> over_int_limit rt s then Inl ValueError
        else if hms_seconds rt h m s = 0 then Inr None
        else if hms_seconds rt h m s div 86400 > 999999999 then Inl OverflowError
        else Inr (Some (hms_seconds rt h m s * 1000000)))"
proof (cases "hms_string h m s = []")
  case True
  with raw hms_string_Nil [OF ok] hms_string_Nil_limit [of h m s rt] show ?thesis
    by (simp add: parse_hms_duration_def)
next
  case False
  from fullmatch_hms_string [OF ok] obtain mm where
    mm: "fullmatch (HMS_RE rt) (hms_string h m s) = Some mm"
    and g: "group mm ''h'' = h" "group mm ''m'' = m" "group mm ''s'' = s" by blast
  have gi: "group_int rt mm ''h'' =
      (if over_int_limit rt h then Inl ValueError else Inr (component_value rt h))"
    "group_int rt mm ''m'' =
      (if over_int_limit rt m then Inl ValueError else Inr (component_value rt m))"
    "group_int rt mm ''s'' =
      (if over_int_limit rt s then Inl ValueError else Inr (component_value rt s))"
    using ok g by (simp_all add: group_int_component)
  have nn: "0 \<le> component_value rt h" "0 \<le> component_value rt m" "0 \<le> component_value rt s"
    by (rule component_value_nonneg)+
  have zero: "(component_value rt h = 0 \<and> component_value rt m = 0 \<and> component_value rt s = 0)
      \<longleftrightarrow> hms_seconds rt h m s = 0"
    using nn by (auto simp add: hms_seconds_def)
  show ?thesis
    using False raw mm zero
    by (simp add: parse_hms_duration_def Let_def gi timedelta_seconds [OF nn])
      (simp add: hms_seconds_def)
qed

lemma parse_hms_no_form:
  assumes "\<nexists>h m s. lower (strip x) = hms_string h m s \<and> digits_ok rt h \<and> digits_ok rt m \<and>
      digits_ok rt s"
  shows "parse_hms_duration rt x = Inr None"
proof (cases "fullmatch (HMS_RE rt) (lower (strip x))")
  case None
  then show ?thesis by (simp add: parse_hms_duration_def Let_def)
next
  case (Some mm)
  from fullmatch_hms_form [OF Some] assms show ?thesis by blast
qed

text \<open>
  Claim C8, as stated: the duration parser accepts exactly the strings of the grammar
  \<open>(\d+h)?(\d+m)?(\d+s)?\<close>, and every string with at least one matched unit is valid.
  The string \<open>0s\<close> is in the grammar with one unit, and the parser returns none for
  it: a duration whose components are all zero is rejected (line 67).
\<close>

theorem C8_zero_duration_counterexample:
  "lower (strip (ascii ''0s'')) = hms_string None None (Some (ascii ''0'')) \<and>
   digits_ok EX_RT (Some (ascii ''0'')) \<and>
   parse_hms_duration EX_RT (ascii ''0s'') = Inr None"
  by (simp add: parse_hms_duration_def string_defs hms_string_def component_def digits_ok_def
      EX_RT_simps fullmatch_def HMS_RE_def group_int_def group_def int_of_digits_def py_int_def
      int_refused_def)

text \<open>
  Claim C8, amended: the duration parser strips surrounding whitespace and lowercases
  its input (so the unit letters are case-insensitive); on a string that is then of the
  grammar \<open>(\d+h)?(\d+m)?(\d+s)?\<close> (the components in the order hours, minutes, seconds,
  each optional), with digit runs that \<open>int\<close> converts and a total that a \<open>timedelta\<close>
  holds, it returns the duration \<open>3600 h + 60 m + s\<close> seconds when that is not zero and
  none when it is zero (no component at all, or zero components only); on every string
  that is not of the grammar it returns none.
\<close>

theorem C8_parse_hms_duration:
  "(\<forall>h m s. lower (strip x) = hms_string h m s \<and> digits_ok rt h \<and> digits_ok rt m \<and>
        digits_ok rt s \<and>
        \<not> over_int_limit rt h \<and> \<not> over_int_limit rt m \<and> \<not> over_int_limit rt s \<and>
        hms_seconds rt h m s div 86400 \<le> 999999999 \<longrightarrow>
      parse_hms_duration rt x =
        (if hms_seconds rt h m s = 0 then Inr None
         else Inr (Some (hms_seconds rt h m s * 1000000)))) \<and>
   ((\<nexists>h m s. lower (strip x) = hms_string h m s \<and> digits_ok rt h \<and> digits_ok rt m \<and>
        digits_ok rt s) \<longrightarrow>
      parse_hms_duration rt x = Inr None)"
proof (intro conjI allI impI)
  fix h m s
  assume a: "lower (strip x) = hms_string h m s \<and> digits_ok rt h \<and> digits_ok rt m \<and>
        digits_ok rt s \<and>
        \<not> over_int_limit rt h \<and> \<not> over_int_limit rt m \<and> \<not> over_int_limit rt s \<and>
        hms_seconds rt h m s div 86400 \<le> 999999999"
  then have "parse_hms_duration rt x =
       (if over_int_limit rt h \<or> over_int_limit rt m \<or> over_int_limit rt s then Inl ValueError
        else if hms_seconds rt h m s = 0 then Inr None
        else if hms_seconds rt h m s div 86400 > 999999999 then Inl OverflowError
        else Inr (Some (hms_seconds rt h m s * 1000000)))"
    using parse_hms_form [of x h m s rt] by blast
  with a show "parse_hms_duration rt x =
        (if hms_seconds rt h m s = 0 then Inr None
         else Inr (Some (hms_seconds rt h m s * 1000000)))"
    by simp
next
  assume "\<nexists>h m s. lower (strip x) = hms_string h m s \<and> digits_ok rt h \<and> digits_ok rt m \<and>
        digits_ok rt s"
  then show "parse_hms_duration rt x = Inr None"
    by (rule parse_hms_no_form)
qed

text \<open>
  \<open>" 1H2m3S "\<close> is 1 hour 2 minutes 3 seconds, \<open>"0h0m"\<close> is none, and \<open>"5x"\<close>, which is not
  of the grammar, is none.
\<close>

theorem C8_parse_hms_duration_witness:
  "lower (strip (ascii '' 1H2m3S '')) = hms_string (Some (ascii ''1'')) (Some (ascii ''2'')) (Some (ascii ''3'')) \<and>
   parse_hms_duration EX_RT (ascii '' 1H2m3S '') = Inr (Some 3723000000) \<and>
   lower (strip (ascii ''0h0m'')) = hms_string (Some (ascii ''0'')) (Some (ascii ''0'')) None \<and>
   parse_hms_duration EX_RT (ascii ''0h0m'') = Inr None \<and>
   parse_hms_duration EX_RT (ascii ''5x'') = Inr None"
proof -
  have raw: "lower (strip (ascii '' 1H2m3S '')) =
      hms_string (Some (ascii ''1'')) (Some (ascii ''2'')) (Some (ascii ''3''))"
    "lower (strip (ascii ''0h0m'')) = hms_string (Some (ascii ''0'')) (Some (ascii ''0'')) None"
    by (simp_all add: string_defs hms_string_def component_def)
  have ok: "digits_ok EX_RT (Some (ascii ''0''))" "digits_ok EX_RT (Some (ascii ''1''))"
    "digits_ok EX_RT (Some (ascii ''2''))" "digits_ok EX_RT (Some (ascii ''3''))"
    "digits_ok EX_RT None"
    by (simp_all add: digits_ok_def EX_RT_simps ascii_def)
  have lim: "\<not> over_int_limit EX_RT (Some (ascii ''0''))" "\<not> over_int_limit EX_RT (Some (ascii ''1''))"
    "\<not> over_int_limit EX_RT (Some (ascii ''2''))" "\<not> over_int_limit EX_RT (Some (ascii ''3''))"
    "\<not> over_int_limit EX_RT None"
    by (simp_all add: over_int_limit_def int_refused_def ascii_def)
  have secs: "hms_seconds EX_RT (Some (ascii ''1'')) (Some (ascii ''2'')) (Some (ascii ''3'')) = 3723"
    "hms_seconds EX_RT (Some (ascii ''0'')) (Some (ascii ''0'')) None = 0"
    by (simp_all add: hms_seconds_def component_value_def int_of_digits_def EX_RT_simps ascii_def)
  have none: "\<nexists>h m s. lower (strip (ascii ''5x'')) = hms_string h m s \<and> digits_ok EX_RT h \<and>
      digits_ok EX_RT m \<and> digits_ok EX_RT s"
  proof
    assume "\<exists>h m s. lower (strip (ascii ''5x'')) = hms_string h m s \<and> digits_ok EX_RT h \<and>
      digits_ok EX_RT m \<and> digits_ok EX_RT s"
    then obtain h m s where eq: "hms_string h m s = lower (strip (ascii ''5x''))" by metis
    have "lower (strip (ascii ''5x'')) = [53, 120]" by (simp add: string_defs)
    with hms_string_last [of h m s] eq show False by simp
  qed
  from C8_parse_hms_duration [of "ascii '' 1H2m3S ''" EX_RT, THEN conjunct1, rule_format,
      where h = "Some (ascii ''1'')" and m = "Some (ascii ''2'')" and s = "Some (ascii ''3'')"]
    raw(1) ok lim secs(1)
  have a: "parse_hms_duration EX_RT (ascii '' 1H2m3S '') = Inr (Some 3723000000)"
    by simp
  from C8_parse_hms_duration [of "ascii ''0h0m''" EX_RT, THEN conjunct1, rule_format,
      where h = "Some (ascii ''0'')" and m = "Some (ascii ''0'')" and s = None]
    raw(2) ok lim secs(2)
  have b: "parse_hms_duration EX_RT (ascii ''0h0m'') = Inr None"
    by simp
  from C8_parse_hms_duration [of "ascii ''5x''" EX_RT] none
  have c: "parse_hms_duration EX_RT (ascii ''5x'') = Inr None" by blast
  from a b c raw show ?thesis by simp
qed
section \<open>Properties of the rate-limit policy\<close>






lemma severity_rate_limit: "severity STATUS_429 = 2" "severity STATUS_429_QUOTA = 3"
  by (simp_all add: literal_defs severity_defs)

lemmas hms_eval_defs = parse_hms_duration_def fullmatch_def HMS_RE_def group_int_def group_def
  group_str_def int_of_digits_def py_int_def int_refused_def timedelta_def DAY_def

lemmas reset_eval_defs = reset_after_from_text_def search_def RESET_AFTER_RE_def QUOTA_RESET_RE_def
  hms_tail_def ci_eq_def ascii_lower_def

lemma EX_reset_after:
  "reset_after_from_text EX_RT EX_LINE_A = Inr (Some (2700000000, ascii ''45m''))"
  "reset_after_from_text EX_RT EX_LINE_B = Inr (Some (10800000000, ascii ''3h''))"
  "reset_after_from_text EX_RT EX_LINE_PLAIN = Inr None"
  "reset_after_from_text EX_RT EX_LINE_COOL = Inr (Some (10800000000, ascii ''3h''))"
  by (simp_all add: EX_LINE_A_def EX_LINE_B_def EX_LINE_PLAIN_def EX_LINE_COOL_def reset_eval_defs
      hms_eval_defs string_defs EX_RT_simps)

lemma EX_LINE_A_tests:
  "\<not> isin (ascii ''cooldown'') (lower EX_LINE_A)"
  "search (COOLDOWN_PROVIDER_RE EX_RT) EX_LINE_A = None"
  "isin (ascii ''429'') (lower EX_LINE_A)"
  by (simp_all add: EX_LINE_A_def string_defs startswith_def search_def COOLDOWN_PROVIDER_RE_def
      ci_eq_def ascii_lower_def EX_RT_simps)

lemma EX_LINE_B_tests:
  "\<not> isin (ascii ''cooldown'') (lower EX_LINE_B)"
  "search (COOLDOWN_PROVIDER_RE EX_RT) EX_LINE_B = None"
  "isin (ascii ''429'') (lower EX_LINE_B)"
  by (simp_all add: EX_LINE_B_def string_defs startswith_def search_def COOLDOWN_PROVIDER_RE_def
      ci_eq_def ascii_lower_def EX_RT_simps)


lemma EX_T_local: "local_time EX_RT (Some EX_T) = Inr (ascii ''10:28'')"
  by (simp add: local_time_def EX_RT_simps MIN_DATETIME_def MAX_DATETIME_def hhmm_utc8_def
      two_digits_def EX_T_def ascii_def)

lemma EX_lines_filter:
  "\<not> other_agent (search (LANE_AGENT_RE EX_RT) EX_LINE_A)"
  "\<not> other_agent (search AGENT_DIR_RE EX_LINE_A)"
  "\<not> other_agent (search (LANE_AGENT_RE EX_RT) EX_LINE_B)"
  "\<not> other_agent (search AGENT_DIR_RE EX_LINE_B)"
  "\<not> other_agent (search (LANE_AGENT_RE EX_RT) EX_LINE_COOL)"
  "\<not> other_agent (search AGENT_DIR_RE EX_LINE_COOL)"
  by (simp_all add: EX_LINE_A_def EX_LINE_B_def EX_LINE_COOL_def other_agent_def regex_eval_defs
      EX_RT_simps ascii_def)

lemma EX_lines_ts:
  "parse_ts_utc EX_RT EX_LINE_A = Some EX_T" "parse_ts_utc EX_RT EX_LINE_B = Some EX_T"
  "parse_ts_utc EX_RT EX_LINE_COOL = Some EX_T"
  using EX_RT_fromisoformat(1)
  by (simp_all add: EX_LINE_A_def EX_LINE_B_def EX_LINE_COOL_def ts_defs EX_RT_simps ascii_def
      EX_T_def)

lemma EX_lines_rules:
  "search (ALL_MODELS_FAILED_BODY_RE EX_RT) EX_LINE_A = None"
  "search (NO_API_KEY_RE EX_RT) EX_LINE_A = None"
  "search (UNKNOWN_MODEL_RE EX_RT) EX_LINE_A = None"
  "search (MODEL_NOT_ALLOWED_RE EX_RT) EX_LINE_A = None"
  "search (ALL_MODELS_FAILED_BODY_RE EX_RT) EX_LINE_B = None"
  "search (NO_API_KEY_RE EX_RT) EX_LINE_B = None"
  "search (UNKNOWN_MODEL_RE EX_RT) EX_LINE_B = None"
  "search (MODEL_NOT_ALLOWED_RE EX_RT) EX_LINE_B = None"
  "search (ALL_MODELS_FAILED_BODY_RE EX_RT) EX_LINE_COOL = None"
  "search (NO_API_KEY_RE EX_RT) EX_LINE_COOL = None"
  "search (UNKNOWN_MODEL_RE EX_RT) EX_LINE_COOL = None"
  "search (MODEL_NOT_ALLOWED_RE EX_RT) EX_LINE_COOL = None"
  by (simp_all add: EX_LINE_A_def EX_LINE_B_def EX_LINE_COOL_def regex_eval_defs EX_RT_simps
      ascii_def)

lemma EX_lines_model:
  "extract_provider_model EX_RT EX_LINE_A =
     (Some (ascii ''acme''), Some (ascii ''gpt-x''), Some (ascii ''acme/gpt-x''))"
  "extract_provider_model EX_RT EX_LINE_B =
     (Some (ascii ''acme''), Some (ascii ''gpt-x''), Some (ascii ''acme/gpt-x''))"
  "extract_provider_model EX_RT EX_LINE_COOL =
     (Some (ascii ''acme''), Some (ascii ''gpt-x''), Some (ascii ''acme/gpt-x''))"
  by (simp_all add: EX_LINE_A_def EX_LINE_B_def EX_LINE_COOL_def extract_provider_model_def
      normalize_model_id_def regex_eval_defs EX_RT_simps ascii_def)

lemma EX_resolved:
  "by_provider_model EX_MODELS (ascii ''acme'') (ascii ''gpt-x'') =
     Some \<lparr>model_id = ascii ''acme/gpt-x'', provider = ascii ''acme'', model = ascii ''gpt-x''\<rparr>"
  by (simp add: by_provider_model_def EX_MODELS_def ascii_def)

text \<open>
  A line with \<open>provider=P model=M\<close> markers of a configured model, that passes the
  agent-scope filter and is neither an aggregate failure, nor a missing-credential line,
  nor an unknown-model line, is classified for that model.
\<close>

lemma process_line_model:
  assumes "\<not> other_agent (search (LANE_AGENT_RE rt) line)"
    and "\<not> other_agent (search AGENT_DIR_RE line)"
    and "parse_ts_utc rt line = ts"
    and "local_time rt ts = Inr ts_local"
    and "search (ALL_MODELS_FAILED_BODY_RE rt) line = None"
    and "extract_provider_model rt line = (Some p, Some mo, mid0)"
    and "p \<noteq> []" and "mo \<noteq> []"
    and "by_provider_model models p mo = Some r"
    and "model_id r \<noteq> []"
    and "search (NO_API_KEY_RE rt) line = None"
    and "search (UNKNOWN_MODEL_RE rt) line = None"
    and "search (MODEL_NOT_ALLOWED_RE rt) line = None"
  shows "process_line rt models now_utc csm rsm st line =
    classify_model rt now_utc csm rsm ts ts_local line st (model_id r)"
  using assms
  by (simp add: process_line_def attributed_line_def Let_def truthy_def split: sum.splits)

lemma EX_lines_classified:
  "process_line EX_RT EX_MODELS now_utc csm rsm st EX_LINE_A =
     classify_model EX_RT now_utc csm rsm (Some EX_T) (ascii ''10:28'') EX_LINE_A st EX_MID"
  "process_line EX_RT EX_MODELS now_utc csm rsm st EX_LINE_B =
     classify_model EX_RT now_utc csm rsm (Some EX_T) (ascii ''10:28'') EX_LINE_B st EX_MID"
  "process_line EX_RT EX_MODELS now_utc csm rsm st EX_LINE_COOL =
     classify_model EX_RT now_utc csm rsm (Some EX_T) (ascii ''10:28'') EX_LINE_COOL st EX_MID"
proof -
  have ne: "ascii ''acme'' \<noteq> []" "ascii ''gpt-x'' \<noteq> []"
    "model_id \<lparr>model_id = ascii ''acme/gpt-x'', provider = ascii ''acme'', model = ascii ''gpt-x''\<rparr> = EX_MID"
    "EX_MID \<noteq> []"
    by (simp_all add: ascii_def EX_MID_def)
  show "process_line EX_RT EX_MODELS now_utc csm rsm st EX_LINE_A =
     classify_model EX_RT now_utc csm rsm (Some EX_T) (ascii ''10:28'') EX_LINE_A st EX_MID"
    using process_line_model [OF EX_lines_filter(1,2) EX_lines_ts(1) EX_T_local EX_lines_rules(1)
        EX_lines_model(1) ne(1,2) EX_resolved _ EX_lines_rules(2,3,4)] ne(3,4)
    by simp
  show "process_line EX_RT EX_MODELS now_utc csm rsm st EX_LINE_B =
     classify_model EX_RT now_utc csm rsm (Some EX_T) (ascii ''10:28'') EX_LINE_B st EX_MID"
    using process_line_model [OF EX_lines_filter(3,4) EX_lines_ts(2) EX_T_local EX_lines_rules(5)
        EX_lines_model(2) ne(1,2) EX_resolved _ EX_lines_rules(6,7,8)] ne(3,4)
    by simp
  show "process_line EX_RT EX_MODELS now_utc csm rsm st EX_LINE_COOL =
     classify_model EX_RT now_utc csm rsm (Some EX_T) (ascii ''10:28'') EX_LINE_COOL st EX_MID"
    using process_line_model [OF EX_lines_filter(5,6) EX_lines_ts(3) EX_T_local EX_lines_rules(9)
        EX_lines_model(3) ne(1,2) EX_resolved _ EX_lines_rules(10,11,12)] ne(3,4)
    by simp
qed

lemmas pass_eval_defs =
  apply_incident_def is_active_def record_last_def apply_status_def Let_def current_row_def
  example_defs EX_T_def literal_defs severity_defs startswith_def strip_def rstrip_def
  recovery_text_def model_event_def

lemma severities_statuses:
  "severities (Inr st) =
     Some (map (\<lambda>ks. (fst ks, severity (snd ks))) (map (\<lambda>kr. (fst kr, Status (snd kr))) (matrix st)))"
  by (simp add: severities_def comp_def)







section \<open>Properties of the missing-credential rule\<close>


lemma EX_LINE_C_filter:
  "\<not> other_agent (search (LANE_AGENT_RE EX_RT) EX_LINE_C)"
  "\<not> other_agent (search AGENT_DIR_RE EX_LINE_C)"
  "search (ALL_MODELS_FAILED_BODY_RE EX_RT) EX_LINE_C = None"
  by (simp_all add: EX_LINE_C_def other_agent_def regex_eval_defs EX_RT_simps ascii_def)

lemma EX_LINE_C_key:
  "map_option (\<lambda>nk. group_str nk ''provider'') (search (NO_API_KEY_RE EX_RT) EX_LINE_C) = Some (ascii ''acme'')"
  by (simp add: EX_LINE_C_def regex_eval_defs EX_RT_simps ascii_def isspace_def)

lemma EX_LINE_AGG_key:
  "map_option (\<lambda>nk. group_str nk ''provider'') (search (NO_API_KEY_RE EX_RT) EX_LINE_AGG) = Some (ascii ''acme'')"
  by (simp add: EX_LINE_AGG_def EX_BODY_def regex_eval_defs EX_RT_simps ascii_def isspace_def)

lemma EX_LINE_AGG_filter:
  "\<not> other_agent (search (LANE_AGENT_RE EX_RT) EX_LINE_AGG)"
  "\<not> other_agent (search AGENT_DIR_RE EX_LINE_AGG)"
  by (simp_all add: EX_LINE_AGG_def EX_BODY_def other_agent_def regex_eval_defs EX_RT_simps ascii_def)

lemma EX_LINE_C_search:
  "search (NO_API_KEY_RE EX_RT) EX_LINE_C = Some (Some 34, [], [(''provider'', ascii ''acme'')])"
  by (simp add: EX_LINE_C_def regex_eval_defs EX_RT_simps ascii_def isspace_def)

lemma EX_LINE_AGG_search:
  "map_option (\<lambda>m. group_str m ''body'') (search (ALL_MODELS_FAILED_BODY_RE EX_RT) EX_LINE_AGG) =
     Some EX_BODY"
  by (simp add: EX_LINE_AGG_def EX_BODY_def regex_eval_defs EX_RT_simps ascii_def isspace_def)

lemma EX_BODY_split: "split_on 124 EX_BODY = [EX_BODY]"
  by (simp add: EX_BODY_def ascii_def)

lemma EX_segment:
  "classify_segment EX_RT now_utc csm rsm ts ts_local (initial_state EX_MODELS) EX_BODY =
   Inr (initial_state EX_MODELS)"
  by (simp add: EX_BODY_def classify_segment_def Let_def string_defs split1_def startswith_def
      reset_after_from_text_def RESET_AFTER_RE_def QUOTA_RESET_RE_def hms_tail_def
      regex_eval_defs EX_RT_simps)

lemma EX_LINE_AGG_local: "local_time EX_RT (parse_ts_utc EX_RT EX_LINE_AGG) = Inr (ascii ''10:28'')"
proof -
  have "parse_ts_utc EX_RT EX_LINE_AGG = Some EX_T"
    using EX_RT_fromisoformat(1)
    by (simp add: EX_LINE_AGG_def EX_BODY_def ts_defs EX_RT_simps ascii_def EX_T_def)
  with EX_T_local show ?thesis by simp
qed

lemma EX_LINE_AGG_unchanged:
  "process_line EX_RT EX_MODELS now_utc csm rsm (initial_state EX_MODELS) EX_LINE_AGG =
     Inr (initial_state EX_MODELS)"
proof -
  from EX_LINE_AGG_search obtain m where
    m: "search (ALL_MODELS_FAILED_BODY_RE EX_RT) EX_LINE_AGG = Some m" "group_str m ''body'' = EX_BODY"
    by (cases "search (ALL_MODELS_FAILED_BODY_RE EX_RT) EX_LINE_AGG") auto
  show ?thesis
    using EX_LINE_AGG_filter
    by (simp add: process_line_def Let_def m EX_BODY_split EX_segment EX_LINE_AGG_local)
qed

lemma severity_le_3: "severity s \<le> 3"
  by (simp add: severity_def order_get_def)

lemma severity_STATUS_NO_KEY: "severity STATUS_NO_KEY = 3"
  by (simp add: literal_defs severity_defs)

lemma DIAG_NO_KEY_nonempty: "DIAG_NO_KEY \<noteq> []"
  by (simp add: literal_defs)

lemma apply_no_key_row:
  "\<exists>r. map_of (matrix (apply_status s mid STATUS_NO_KEY DIAG_NO_KEY None)) mid = Some r \<and>
     severity (Status r) = 3 \<and> Diagnosis r = DIAG_NO_KEY"
proof -
  have "severity (worse_status (Status (current_row s mid)) STATUS_NO_KEY) = 3"
    using severity_le_3 [of "Status (current_row s mid)"]
    by (simp add: severity_worse_status severity_STATUS_NO_KEY)
  then show ?thesis
    by (simp add: matrix_apply_status glyph_green_iff DIAG_NO_KEY_nonempty)
qed

lemma no_key_fold_other:
  "\<nexists>m. m \<in> set models \<and> provider m = p \<and> model_id m = mid \<Longrightarrow>
   map_of (matrix (foldl (\<lambda>s m. if provider m \<noteq> p then s
        else apply_status s (model_id m) STATUS_NO_KEY DIAG_NO_KEY None) s models)) mid =
   map_of (matrix s) mid"
proof (induction models arbitrary: s)
  case Nil
  then show ?case by simp
next
  case (Cons m ms)
  have rest: "\<nexists>m. m \<in> set ms \<and> provider m = p \<and> model_id m = mid"
    using Cons.prems by auto
  have head: "provider m = p \<Longrightarrow> model_id m \<noteq> mid"
    using Cons.prems by auto
  show ?case
  proof (cases "provider m = p")
    case True
    with head have "mid \<noteq> model_id m" by blast
    with True Cons.IH [OF rest] show ?thesis by (simp add: matrix_apply_status)
  next
    case False
    with Cons.IH [OF rest] show ?thesis by simp
  qed
qed

lemma no_key_fold_hit:
  "\<exists>m\<in>set models. provider m = p \<and> model_id m = mid \<Longrightarrow>
   \<exists>r. map_of (matrix (foldl (\<lambda>s m. if provider m \<noteq> p then s
        else apply_status s (model_id m) STATUS_NO_KEY DIAG_NO_KEY None) s models)) mid = Some r \<and>
     severity (Status r) = 3 \<and> Diagnosis r = DIAG_NO_KEY"
proof (induction models rule: rev_induct)
  case Nil
  then show ?case by simp
next
  case (snoc m ms)
  show ?case
  proof (cases "provider m = p \<and> model_id m = mid")
    case True
    then show ?thesis using apply_no_key_row by simp
  next
    case False
    with snoc.prems have "\<exists>m\<in>set ms. provider m = p \<and> model_id m = mid" by auto
    from snoc.IH [OF this] False show ?thesis
      by (auto simp add: matrix_apply_status)
  qed
qed

lemma matrix_no_api_key:
  "matrix (no_api_key models ts_local st p) =
   matrix (foldl (\<lambda>s m. if provider m \<noteq> p then s
        else apply_status s (model_id m) STATUS_NO_KEY DIAG_NO_KEY None) st models)"
proof -
  define F :: "state \<Rightarrow> ModelRef \<Rightarrow> state" where "F = (\<lambda>s m. if provider m \<noteq> p then s
        else apply_status s (model_id m) STATUS_NO_KEY DIAG_NO_KEY None)"
  have step: "matrix (F s m) = matrix (F s' m)" if "matrix s = matrix s'" for s s' m
    using that by (simp add: F_def apply_status_def current_row_def Let_def)
  have "matrix (foldl F s models) = matrix (foldl F s' models)" if "matrix s = matrix s'" for s s'
    using that
  proof (induction models arbitrary: s s')
    case Nil
    then show ?case by simp
  next
    case (Cons m ms)
    have "matrix (foldl F (F s m) ms) = matrix (foldl F (F s' m) ms)"
      by (rule Cons.IH [OF step [OF Cons.prems]])
    then show ?case by (simp only: foldl_Cons)
  qed
  from this [of "st\<lparr>events := events st @
      [line_event ts_local (ascii ''provider='' @ p @ ascii '': No API key'')]\<rparr>" st]
  show ?thesis by (simp add: no_api_key_def F_def)
qed

lemma process_line_no_api_key:
  assumes "\<not> other_agent (search (LANE_AGENT_RE rt) line)"
    and "\<not> other_agent (search AGENT_DIR_RE line)"
    and "search (ALL_MODELS_FAILED_BODY_RE rt) line = None"
    and "search (NO_API_KEY_RE rt) line = Some nk"
  shows "process_line rt models now_utc csm rsm st line =
    (case local_time rt (parse_ts_utc rt line) of
       Inl e \<Rightarrow> Inl e
     | Inr ts_local \<Rightarrow> Inr (no_api_key models ts_local st (group_str nk ''provider'')))"
  using assms by (simp add: process_line_def attributed_line_def Let_def split: sum.splits)

lemma EX_LINE_C_local: "local_time EX_RT (parse_ts_utc EX_RT EX_LINE_C) = Inr (ascii ''10:28'')"
proof -
  have "parse_ts_utc EX_RT EX_LINE_C = Some EX_T"
    using EX_RT_fromisoformat(1)
    by (simp add: EX_LINE_C_def ts_defs EX_RT_simps ascii_def EX_T_def)
  with EX_T_local show ?thesis by simp
qed

text \<open>
  Claim C7, as stated: for every line matching \<open>No API key found for provider "X"\<close>,
  exactly the configured models of provider X get a red, missing-credential incident.
  The rule is not reached by every such line: a line of another agent is skipped, and
  an aggregate-failure line is classified segment by segment by the cooldown, rate-limit,
  timeout and context rules only. The line below carries the phrase for the provider
  \<open>acme\<close> inside an aggregate failure, and the row of \<open>acme/gpt-x\<close> stays green.
\<close>

theorem C7_aggregate_line_counterexample:
  "map_option (\<lambda>nk. group_str nk ''provider'') (search (NO_API_KEY_RE EX_RT) EX_LINE_AGG) =
     Some (ascii ''acme'') \<and>
   provider (hd EX_MODELS) = ascii ''acme'' \<and> model_id (hd EX_MODELS) = EX_MID \<and>
   process_line EX_RT EX_MODELS (EX_T + 60000000) 240 30 (initial_state EX_MODELS) EX_LINE_AGG =
     Inr (initial_state EX_MODELS) \<and>
   map_option (\<lambda>r. severity (Status r)) (map_of (matrix (initial_state EX_MODELS)) EX_MID) = Some 1"
  using EX_LINE_AGG_key EX_LINE_AGG_unchanged
  by (simp add: example_defs map_of_update severity_STATUS_HEALTHY)

text \<open>
  Claim C7, amended: for every line that is not skipped by the agent-scope filter, is not
  an aggregate-failure line, matches \<open>No API key found for provider "X"\<close>, and whose
  timestamp (when it has one) can be rendered in the report's time zone, every
  configured model whose provider is X has, after the line, a red row with the
  missing-credential diagnosis; the rows of all other model ids are as before; and the
  result depends neither on the generation instant, nor on the sticky parameters, nor
  (for the matrix) on what the line's local time is: the incident is applied as active.
\<close>

theorem C7_no_api_key:
  assumes "\<not> other_agent (search (LANE_AGENT_RE rt) line)"
    and "\<not> other_agent (search AGENT_DIR_RE line)"
    and "search (ALL_MODELS_FAILED_BODY_RE rt) line = None"
    and "search (NO_API_KEY_RE rt) line = Some nk"
    and "local_time rt (parse_ts_utc rt line) = Inr ts_local"
  shows "\<exists>st'. process_line rt models now_utc cooldown_sticky_minutes rate_limit_sticky_minutes st line =
        Inr st' \<and>
    (\<forall>m\<in>set models. provider m = group_str nk ''provider'' \<longrightarrow>
       (\<exists>r. map_of (matrix st') (model_id m) = Some r \<and> severity (Status r) = 3 \<and>
          Diagnosis r = DIAG_NO_KEY)) \<and>
    (\<forall>mid. (\<nexists>m. m \<in> set models \<and> provider m = group_str nk ''provider'' \<and> model_id m = mid) \<longrightarrow>
       map_of (matrix st') mid = map_of (matrix st) mid) \<and>
    (\<forall>ts_local. matrix st' = matrix (no_api_key models ts_local st (group_str nk ''provider''))) \<and>
    (\<forall>now' csm' rsm'. process_line rt models now' csm' rsm' st line = Inr st')"
proof -
  let ?p = "group_str nk ''provider''"
  let ?st' = "no_api_key models ts_local st ?p"
  have run: "process_line rt models now' csm' rsm' st line = Inr ?st'" for now' csm' rsm'
    using process_line_no_api_key [OF assms(1-4), of models now' csm' rsm' st] assms(5)
    by simp
  have hit: "\<forall>m\<in>set models. provider m = ?p \<longrightarrow>
       (\<exists>r. map_of (matrix ?st') (model_id m) = Some r \<and> severity (Status r) = 3 \<and>
          Diagnosis r = DIAG_NO_KEY)"
  proof (intro ballI impI)
    fix m assume "m \<in> set models" "provider m = ?p"
    then have "\<exists>m'\<in>set models. provider m' = ?p \<and> model_id m' = model_id m" by blast
    from no_key_fold_hit [OF this] show "\<exists>r. map_of (matrix ?st') (model_id m) = Some r \<and>
        severity (Status r) = 3 \<and> Diagnosis r = DIAG_NO_KEY"
      by (simp add: matrix_no_api_key)
  qed
  have other: "\<forall>mid. (\<nexists>m. m \<in> set models \<and> provider m = ?p \<and> model_id m = mid) \<longrightarrow>
       map_of (matrix ?st') mid = map_of (matrix st) mid"
    by (simp add: matrix_no_api_key no_key_fold_other)
  have loc: "\<forall>ts_local. matrix ?st' = matrix (no_api_key models ts_local st ?p)"
    by (simp add: matrix_no_api_key)
  from run hit other loc show ?thesis by blast
qed

text \<open>Scenario C of the specification: both models of \<open>acme\<close> become red with the
  missing-credential diagnosis, the model of the other provider is untouched.\<close>

theorem C7_no_api_key_witness:
  "\<exists>st'. process_line EX_RT EX_MODELS (EX_T + 60000000) 240 30 (initial_state EX_MODELS) EX_LINE_C =
       Inr st' \<and>
     map_option (\<lambda>r. (severity (Status r), Diagnosis r)) (map_of (matrix st') (ascii ''acme/gpt-x'')) =
       Some (3, DIAG_NO_KEY) \<and>
     map_option (\<lambda>r. (severity (Status r), Diagnosis r)) (map_of (matrix st') (ascii ''acme/gpt-y'')) =
       Some (3, DIAG_NO_KEY) \<and>
     map_of (matrix st') (ascii ''other/m'') =
       map_of (matrix (initial_state EX_MODELS)) (ascii ''other/m'')"
proof -
  from C7_no_api_key [OF EX_LINE_C_filter EX_LINE_C_search EX_LINE_C_local, of EX_MODELS
      "EX_T + 60000000" 240 30 "initial_state EX_MODELS"]
  obtain st' where run: "process_line EX_RT EX_MODELS (EX_T + 60000000) 240 30
        (initial_state EX_MODELS) EX_LINE_C = Inr st'"
    and hit: "\<forall>m\<in>set EX_MODELS. provider m = ascii ''acme'' \<longrightarrow>
       (\<exists>r. map_of (matrix st') (model_id m) = Some r \<and> severity (Status r) = 3 \<and>
          Diagnosis r = DIAG_NO_KEY)"
    and other: "\<forall>mid. (\<nexists>m. m \<in> set EX_MODELS \<and> provider m = ascii ''acme'' \<and> model_id m = mid) \<longrightarrow>
       map_of (matrix st') mid = map_of (matrix (initial_state EX_MODELS)) mid"
    by (auto simp add: group_str_def group_def)
  have x: "map_option (\<lambda>r. (severity (Status r), Diagnosis r))
      (map_of (matrix st') (ascii ''acme/gpt-x'')) = Some (3, DIAG_NO_KEY)"
    and y: "map_option (\<lambda>r. (severity (Status r), Diagnosis r))
      (map_of (matrix st') (ascii ''acme/gpt-y'')) = Some (3, DIAG_NO_KEY)"
    using hit by (auto simp add: EX_MODELS_def)
  have "\<nexists>m. m \<in> set EX_MODELS \<and> provider m = ascii ''acme'' \<and> model_id m = ascii ''other/m''"
    by (auto simp add: EX_MODELS_def ascii_def)
  with other have z: "map_of (matrix st') (ascii ''other/m'') =
      map_of (matrix (initial_state EX_MODELS)) (ascii ''other/m'')" by blast
  from run x y z show ?thesis by blast
qed

section \<open>Severity never decreases during a pass\<close>

text \<open>
  Every way in which a line changes the matrix goes through \<open>apply\<close>, which combines the
  status with \<open>_worse_status\<close>, through the inactive branch of \<open>apply_incident\<close>, which
  writes the diagnosis only, or through the creation of a row for a model that had none.
  Each of them leaves every existing row at least as severe as it was.
\<close>

lemma nd_refl: "never_downgraded st st"
  by (simp add: never_downgraded_def)

lemma nd_trans: "never_downgraded a b \<Longrightarrow> never_downgraded b c \<Longrightarrow> never_downgraded a c"
  unfolding never_downgraded_def by (meson le_trans)

lemma nd_matrix_eq: "matrix st' = matrix st \<Longrightarrow> never_downgraded st st'"
  by (simp add: never_downgraded_def)

lemma nd_apply_status: "never_downgraded st (apply_status st mid status diagnosis event)"
  by (auto simp add: never_downgraded_def matrix_apply_status current_row_def
      severity_worse_status)

lemma nd_stale_incident: "never_downgraded st (stale_incident ts_local st mid kind event)"
  by (auto simp add: never_downgraded_def matrix_stale_incident current_row_def)

lemma nd_apply_incident:
  "never_downgraded st
     (apply_incident now_utc ts ts_local st mid kind base_status diagnosis sticky_until event)"
proof -
  have "never_downgraded st
      (if is_active now_utc ts sticky_until then apply_status st mid base_status diagnosis event
       else stale_incident ts_local st mid kind event)"
    by (simp add: nd_apply_status nd_stale_incident)
  moreover have "never_downgraded
      (if is_active now_utc ts sticky_until then apply_status st mid base_status diagnosis event
       else stale_incident ts_local st mid kind event)
      (apply_incident now_utc ts ts_local st mid kind base_status diagnosis sticky_until event)"
    by (rule nd_matrix_eq) (simp add: apply_incident_def matrix_record_last)
  ultimately show ?thesis by (rule nd_trans)
qed

lemma nd_new_row:
  "map_of (matrix st) mid = None \<Longrightarrow>
   never_downgraded st (st\<lparr>matrix := AList.update mid r (matrix st)\<rparr>)"
  by (auto simp add: never_downgraded_def map_of_update)

lemma nd_events: "never_downgraded st (st\<lparr>events := evs\<rparr>)"
  by (simp add: never_downgraded_def)

lemma nd_fold_err:
  assumes step: "\<And>s x s'. f s x = Inr s' \<Longrightarrow> never_downgraded s s'"
  shows "fold_err f xs s = Inr s' \<Longrightarrow> never_downgraded s s'"
proof (induction xs arbitrary: s)
  case Nil
  then show ?case by (simp add: nd_refl)
next
  case (Cons x xs)
  from Cons.prems obtain s1 where s1: "f s x = Inr s1" "fold_err f xs s1 = Inr s'"
    by (auto split: sum.splits)
  from step [OF s1(1)] Cons.IH [OF s1(2)] show ?case by (rule nd_trans)
qed

lemma nd_classify_segment:
  assumes "classify_segment rt now_utc csm rsm ts ts_local st raw_seg = Inr st'"
  shows "never_downgraded st st'"
proof -
  have "st' = st \<or> (\<exists>mid kind status diag su ev.
      st' = apply_incident now_utc ts ts_local st mid kind status diag su ev)"
    using assms
    by (simp add: classify_segment_def Let_def split: if_splits sum.splits prod.splits) blast+
  then show ?thesis by (auto simp add: nd_refl nd_apply_incident)
qed

lemma nd_classify_model:
  assumes "classify_model rt now_utc csm rsm ts ts_local line st mid = Inr st'"
  shows "never_downgraded st st'"
proof -
  define st1 where "st1 = (if map_of (matrix st) mid = None
      then st\<lparr>matrix := AList.update mid (default_row mid) (matrix st)\<rparr> else st)"
  have 1: "never_downgraded st st1"
    by (simp add: st1_def nd_new_row nd_refl)
  have "st' = st1 \<or> (\<exists>kind status diag su ev.
      st' = apply_incident now_utc ts ts_local st1 mid kind status diag su ev)"
  proof (cases "map_of (matrix st) mid = None")
    case True
    then have "st1 = st\<lparr>matrix := AList.update mid (default_row mid) (matrix st)\<rparr>"
      by (simp add: st1_def)
    with assms True show ?thesis
      by (simp add: classify_model_def Let_def split: if_splits sum.splits prod.splits) blast+
  next
    case False
    then have "st1 = st" by (auto simp add: st1_def)
    with assms False show ?thesis
      by (simp add: classify_model_def Let_def split: if_splits sum.splits prod.splits) blast+
  qed
  then have "never_downgraded st1 st'" by (auto simp add: nd_refl nd_apply_incident)
  with 1 show ?thesis by (rule nd_trans)
qed


lemma nd_no_api_key: "never_downgraded st (no_api_key models ts_local st p)"
proof -
  define F :: "state \<Rightarrow> ModelRef \<Rightarrow> state" where "F = (\<lambda>s m. if provider m \<noteq> p then s
        else apply_status s (model_id m) STATUS_NO_KEY DIAG_NO_KEY None)"
  have step: "never_downgraded s (F s m)" for s m
    by (simp add: F_def nd_refl nd_apply_status)
  have fold: "never_downgraded s (foldl F s models)" for s
  proof (induction models arbitrary: s)
    case Nil
    show ?case by (simp add: nd_refl)
  next
    case (Cons m ms)
    from step [of s m] Cons [of "F s m"] show ?case
      by (simp only: foldl_Cons) (rule nd_trans)
  qed
  have "never_downgraded st (st\<lparr>events := events st @
      [line_event ts_local (ascii ''provider='' @ p @ ascii '': No API key'')]\<rparr>)"
    by (rule nd_events)
  from this fold show ?thesis
    unfolding no_api_key_def F_def by (rule nd_trans)
qed

lemma nd_provider_cooldown:
  assumes "provider_cooldown models now_utc csm ts ts_local st p = Inr st'"
  shows "never_downgraded st st'"
proof -
  have step: "never_downgraded s s'"
    if "(if provider m \<noteq> p then Inr s
         else (case sticky_after ts (timedelta 0 csm 0) of
                 Inl e \<Rightarrow> Inl e
               | Inr sticky_until \<Rightarrow>
                   Inr (apply_incident now_utc ts ts_local s (model_id m)
                          (ascii ''provider cooldown'') STATUS_COOLDOWN
                          DIAG_PROVIDER_COOLDOWN sticky_until None))) = Inr s'"
    for s s' and m :: ModelRef
    using that by (auto simp add: nd_refl nd_apply_incident split: if_splits sum.splits)
  have "never_downgraded st (st\<lparr>events := events st @
      [line_event ts_local (ascii ''provider='' @ p @ ascii '': cooldown'')]\<rparr>)"
    by (rule nd_events)
  moreover have "never_downgraded (st\<lparr>events := events st @
      [line_event ts_local (ascii ''provider='' @ p @ ascii '': cooldown'')]\<rparr>) st'"
    using assms unfolding provider_cooldown_def
    by (rule nd_fold_err [rotated]) (rule step)
  ultimately show ?thesis by (rule nd_trans)
qed

lemma nd_unknown_model: "never_downgraded st (unknown_model ts_local st mid)"
proof -
  define st1 where "st1 = st\<lparr>events := events st @
      [line_event ts_local (ascii ''model='' @ mid @ ascii '': Unknown/Not allowed'')]\<rparr>"
  have 1: "never_downgraded st st1" unfolding st1_def by (rule nd_events)
  have 2: "never_downgraded st1 (unknown_model ts_local st mid)"
    by (simp add: unknown_model_def Let_def st1_def [symmetric] nd_new_row nd_apply_status)
  from 1 2 show ?thesis by (rule nd_trans)
qed

lemma nd_unattributed:
  "unattributed rt ts_local line st = Inr st' \<Longrightarrow> never_downgraded st st'"
  by (auto simp add: unattributed_def Let_def nd_refl nd_events split: if_splits sum.splits)

lemma nd_fold_segments:
  "fold_err (classify_segment rt now_utc csm rsm ts ts_local) segs st = Inr st' \<Longrightarrow>
   never_downgraded st st'"
  by (rule nd_fold_err [of "classify_segment rt now_utc csm rsm ts ts_local",
        OF nd_classify_segment])

lemma nd_fold_models:
  "fold_err (classify_model rt now_utc csm rsm ts ts_local line) ids st = Inr st' \<Longrightarrow>
   never_downgraded st st'"
  by (rule nd_fold_err [of "classify_model rt now_utc csm rsm ts ts_local line",
        OF nd_classify_model])

lemma nd_attributed_line:
  assumes "attributed_line rt models now_utc csm rsm ts ts_local st line = Inr st'"
  shows "never_downgraded st st'"
proof -
  define pm where "pm = extract_provider_model rt line"
  define resolved where "resolved = (if truthy (fst pm) \<and> truthy (fst (snd pm))
      then (case fst pm of
              None \<Rightarrow> None
            | Some p \<Rightarrow> (case fst (snd pm) of
                           None \<Rightarrow> None
                         | Some mo \<Rightarrow> by_provider_model models p mo))
      else None)"
  define model_id1 where
    "model_id1 = (case resolved of None \<Rightarrow> snd (snd pm) | Some r \<Rightarrow> Some (model_id r))"
  define matched where
    "matched = (if \<not> truthy model_id1 then find_model_refs_in_line line models else [])"
  define ids where "ids = (if truthy model_id1
      then (case model_id1 of None \<Rightarrow> [] | Some i \<Rightarrow> [i])
      else map model_id matched)"
  define cp where "cp = (if \<not> truthy model_id1 \<and> matched = []
      then search (COOLDOWN_PROVIDER_RE rt) line else None)"
  define um where "um = (case search (UNKNOWN_MODEL_RE rt) line of
      Some m \<Rightarrow> Some m | None \<Rightarrow> search (MODEL_NOT_ALLOWED_RE rt) line)"
  have unfold: "attributed_line rt models now_utc csm rsm ts ts_local st line =
      (case search (NO_API_KEY_RE rt) line of
         Some nk \<Rightarrow> Inr (no_api_key models ts_local st (group_str nk ''provider''))
       | None \<Rightarrow>
           (case cp of
              Some c \<Rightarrow> provider_cooldown models now_utc csm ts ts_local st (group_str c ''provider'')
            | None \<Rightarrow>
                (case um of
                   Some u \<Rightarrow> Inr (unknown_model ts_local st (group_str u ''model''))
                 | None \<Rightarrow>
                     if ids = [] then unattributed rt ts_local line st
                     else fold_err (classify_model rt now_utc csm rsm ts ts_local line) ids st)))"
    unfolding attributed_line_def Let_def pm_def [symmetric] resolved_def [symmetric]
      model_id1_def [symmetric] matched_def [symmetric] ids_def [symmetric] cp_def [symmetric]
      um_def [symmetric] ..
  from assms [unfolded unfold] show ?thesis
    using nd_no_api_key nd_provider_cooldown nd_unknown_model nd_unattributed nd_fold_models
    by (auto split: option.splits if_splits)
qed

lemma nd_process_line:
  assumes "process_line rt models now_utc csm rsm st line = Inr st'"
  shows "never_downgraded st st'"
proof -
  have "st' = st \<or>
      (\<exists>ts ts_local segs.
         fold_err (classify_segment rt now_utc csm rsm ts ts_local) segs st = Inr st') \<or>
      (\<exists>ts ts_local. attributed_line rt models now_utc csm rsm ts ts_local st line = Inr st')"
    using assms
    by (simp add: process_line_def Let_def split: option.splits if_splits sum.splits) blast+
  then show ?thesis
    using nd_refl nd_attributed_line nd_fold_segments by blast
qed

lemma fold_err_append:
  "fold_err f (xs @ ys) s = (case fold_err f xs s of Inl e \<Rightarrow> Inl e | Inr s' \<Rightarrow> fold_err f ys s')"
  by (induction xs arbitrary: s) (auto split: sum.splits)

lemma nd_run_lines:
  "run_lines rt models now_utc csm rsm lines st = Inr st' \<Longrightarrow> never_downgraded st st'"
  unfolding run_lines_def
  by (rule nd_fold_err [of "process_line rt models now_utc csm rsm", OF nd_process_line])

subsection \<open>The pass over Scenario B, then Scenario A\<close>

lemma EX_policy:
  "rate_limit_policy 30 (Some EX_T) (Some (2700000000, ascii ''45m'')) =
     Inr (STATUS_429, strip (DIAG_429_SHORT @ recovery_text (Some (2700000000, ascii ''45m''))),
          Some (EX_T + 2700000000))"
  "rate_limit_policy 30 (Some EX_T) (Some (10800000000, ascii ''3h'')) =
     Inr (STATUS_429_QUOTA, strip (DIAG_429_QUOTA @ recovery_text (Some (10800000000, ascii ''3h''))),
          Some (EX_T + 10800000000))"
  by (simp_all add: rate_limit_policy_def Let_def HOUR_def sticky_after_def datetime_add_def
      MIN_DATETIME_def MAX_DATETIME_def EX_T_def)

lemma EX_process_A:
  assumes "map_of (matrix st) EX_MID \<noteq> None"
  shows "process_line EX_RT EX_MODELS now_utc 240 30 st EX_LINE_A =
    Inr (apply_incident now_utc (Some EX_T) (ascii ''10:28'') st EX_MID (ascii ''429/rate_limit'')
           STATUS_429 (strip (DIAG_429_SHORT @ recovery_text (Some (2700000000, ascii ''45m''))))
           (Some (EX_T + 2700000000))
           (Some (strip (model_event (ascii ''10:28'') EX_MID
              (ascii ''429/rate_limit '' @ recovery_text (Some (2700000000, ascii ''45m'')))))))"
  unfolding EX_lines_classified using assms
  by (auto simp add: classify_model_def Let_def EX_LINE_A_tests EX_reset_after EX_policy)

lemma EX_process_B:
  assumes "map_of (matrix st) EX_MID \<noteq> None"
  shows "process_line EX_RT EX_MODELS now_utc 240 30 st EX_LINE_B =
    Inr (apply_incident now_utc (Some EX_T) (ascii ''10:28'') st EX_MID (ascii ''429/rate_limit'')
           STATUS_429_QUOTA (strip (DIAG_429_QUOTA @ recovery_text (Some (10800000000, ascii ''3h''))))
           (Some (EX_T + 10800000000))
           (Some (strip (model_event (ascii ''10:28'') EX_MID
              (ascii ''429/rate_limit '' @ recovery_text (Some (10800000000, ascii ''3h'')))))))"
  unfolding EX_lines_classified using assms
  by (auto simp add: classify_model_def Let_def EX_LINE_B_tests EX_reset_after EX_policy)

lemma EX_AFTER_B_statuses:
  "map (\<lambda>kr. (fst kr, Status (snd kr))) (matrix EX_AFTER_B) =
     [(ascii ''acme/gpt-x'', STATUS_429_QUOTA), (ascii ''acme/gpt-y'', STATUS_HEALTHY),
      (ascii ''other/m'', STATUS_HEALTHY)]"
  by (simp add: EX_AFTER_B_def pass_eval_defs)

lemma EX_AFTER_B_row: "map_of (matrix EX_AFTER_B) EX_MID \<noteq> None"
  by (simp add: EX_AFTER_B_def pass_eval_defs)

lemma EX_AFTER_BA_statuses:
  "map (\<lambda>kr. (fst kr, Status (snd kr))) (matrix EX_AFTER_BA) =
     [(ascii ''acme/gpt-x'', STATUS_429_QUOTA), (ascii ''acme/gpt-y'', STATUS_HEALTHY),
      (ascii ''other/m'', STATUS_HEALTHY)]"
  by (simp add: EX_AFTER_BA_def EX_AFTER_B_def pass_eval_defs)

lemma EX_severities:
  "severities (Inr (initial_state EX_MODELS)) =
     Some [(ascii ''acme/gpt-x'', 1), (ascii ''acme/gpt-y'', 1), (ascii ''other/m'', 1)]"
  "severities (Inr EX_AFTER_B) =
     Some [(ascii ''acme/gpt-x'', 3), (ascii ''acme/gpt-y'', 1), (ascii ''other/m'', 1)]"
  "severities (Inr EX_AFTER_BA) =
     Some [(ascii ''acme/gpt-x'', 3), (ascii ''acme/gpt-y'', 1), (ascii ''other/m'', 1)]"
    apply (simp add: severities_def example_defs severity_STATUS_HEALTHY ascii_def)
   apply (simp add: severities_statuses EX_AFTER_B_statuses severity_STATUS_HEALTHY
      severity_rate_limit)
  apply (simp add: severities_statuses EX_AFTER_BA_statuses severity_STATUS_HEALTHY
      severity_rate_limit)
  done


text \<open>
  Claim C10: throughout a single aggregation pass the severity of every model row is
  non-decreasing in the order red > yellow > green. A line that is processed leaves every
  row that existed before it in the matrix, with a severity at least as high; and so does
  every stretch of consecutive lines of the pass: a pass over \<open>pre @ post\<close> that returns has
  an intermediate state after \<open>pre\<close>, and no row is downgraded from the start to that
  state, from that state to the end, or from the start to the end.
\<close>

theorem C10_severity_monotone:
  "(process_line rt models now_utc cooldown_sticky_minutes rate_limit_sticky_minutes st line = Inr st' \<longrightarrow>
      never_downgraded st st') \<and>
   (run_lines rt models now_utc cooldown_sticky_minutes rate_limit_sticky_minutes (pre @ post) st =
      Inr st'' \<longrightarrow>
      (\<exists>st1. run_lines rt models now_utc cooldown_sticky_minutes rate_limit_sticky_minutes pre st =
           Inr st1 \<and>
         run_lines rt models now_utc cooldown_sticky_minutes rate_limit_sticky_minutes post st1 =
           Inr st'' \<and>
         never_downgraded st st1 \<and> never_downgraded st1 st'' \<and> never_downgraded st st''))"
proof (intro conjI impI)
  assume "process_line rt models now_utc cooldown_sticky_minutes rate_limit_sticky_minutes st line = Inr st'"
  then show "never_downgraded st st'" by (rule nd_process_line)
next
  assume run: "run_lines rt models now_utc cooldown_sticky_minutes rate_limit_sticky_minutes
      (pre @ post) st = Inr st''"
  then obtain st1 where
    1: "run_lines rt models now_utc cooldown_sticky_minutes rate_limit_sticky_minutes pre st = Inr st1"
    and 2: "run_lines rt models now_utc cooldown_sticky_minutes rate_limit_sticky_minutes post st1 = Inr st''"
    by (auto simp add: run_lines_def fold_err_append split: sum.splits)
  from nd_run_lines [OF 1] nd_run_lines [OF 2] nd_run_lines [OF run] 1 2
  show "\<exists>st1. run_lines rt models now_utc cooldown_sticky_minutes rate_limit_sticky_minutes pre st =
           Inr st1 \<and>
         run_lines rt models now_utc cooldown_sticky_minutes rate_limit_sticky_minutes post st1 =
           Inr st'' \<and>
         never_downgraded st st1 \<and> never_downgraded st1 st'' \<and> never_downgraded st st''"
    by blast
qed

text \<open>
  Scenario B (a quota exhaustion, red) followed by Scenario A (a short rate limit, yellow)
  for the same model: the row turns red at the first line and stays red at the second.
\<close>

theorem C10_severity_monotone_witness:
  "process_line EX_RT EX_MODELS (EX_T + 60000000) 240 30 (initial_state EX_MODELS) EX_LINE_B =
     Inr EX_AFTER_B \<and>
   never_downgraded (initial_state EX_MODELS) EX_AFTER_B \<and>
   run_lines EX_RT EX_MODELS (EX_T + 60000000) 240 30 ([EX_LINE_B] @ [EX_LINE_A])
     (initial_state EX_MODELS) = Inr EX_AFTER_BA \<and>
   run_lines EX_RT EX_MODELS (EX_T + 60000000) 240 30 [EX_LINE_B] (initial_state EX_MODELS) =
     Inr EX_AFTER_B \<and>
   run_lines EX_RT EX_MODELS (EX_T + 60000000) 240 30 [EX_LINE_A] EX_AFTER_B = Inr EX_AFTER_BA \<and>
   never_downgraded EX_AFTER_B EX_AFTER_BA \<and>
   never_downgraded (initial_state EX_MODELS) EX_AFTER_BA \<and>
   severities (Inr (initial_state EX_MODELS)) =
     Some [(ascii ''acme/gpt-x'', 1), (ascii ''acme/gpt-y'', 1), (ascii ''other/m'', 1)] \<and>
   severities (Inr EX_AFTER_B) =
     Some [(ascii ''acme/gpt-x'', 3), (ascii ''acme/gpt-y'', 1), (ascii ''other/m'', 1)] \<and>
   severities (Inr EX_AFTER_BA) =
     Some [(ascii ''acme/gpt-x'', 3), (ascii ''acme/gpt-y'', 1), (ascii ''other/m'', 1)]"
proof -
  have b: "process_line EX_RT EX_MODELS (EX_T + 60000000) 240 30 (initial_state EX_MODELS)
      EX_LINE_B = Inr EX_AFTER_B"
    unfolding EX_AFTER_B_def by (rule EX_process_B) (simp add: example_defs ascii_def)
  have a: "process_line EX_RT EX_MODELS (EX_T + 60000000) 240 30 EX_AFTER_B EX_LINE_A =
      Inr EX_AFTER_BA"
    unfolding EX_AFTER_BA_def by (rule EX_process_A) (rule EX_AFTER_B_row)
  have rb: "run_lines EX_RT EX_MODELS (EX_T + 60000000) 240 30 [EX_LINE_B]
      (initial_state EX_MODELS) = Inr EX_AFTER_B"
    by (simp add: run_lines_def b)
  have ra: "run_lines EX_RT EX_MODELS (EX_T + 60000000) 240 30 [EX_LINE_A] EX_AFTER_B =
      Inr EX_AFTER_BA"
    by (simp add: run_lines_def a)
  have rba: "run_lines EX_RT EX_MODELS (EX_T + 60000000) 240 30 ([EX_LINE_B] @ [EX_LINE_A])
      (initial_state EX_MODELS) = Inr EX_AFTER_BA"
    by (simp add: run_lines_def a b)
  have nd: "never_downgraded (initial_state EX_MODELS) EX_AFTER_B \<and>
      never_downgraded EX_AFTER_B EX_AFTER_BA \<and>
      never_downgraded (initial_state EX_MODELS) EX_AFTER_BA"
    using C10_severity_monotone [of EX_RT EX_MODELS "EX_T + 60000000" 240 30
        "initial_state EX_MODELS" EX_LINE_B EX_AFTER_B "[EX_LINE_B]" "[EX_LINE_A]" EX_AFTER_BA]
      b rb rba
    by auto
  show ?thesis
    using nd b a rb ra rba EX_severities by simp
qed

end
